theory Spec2Isabelle
  imports Main
begin

section \<open>Python values and library functions\<close>

text \<open>
  The services are Python static and class methods over an SQLAlchemy session. Strings are
  \<open>string\<close>, \<open>Optional[T]\<close> is \<open>T option\<close>, a \<open>datetime\<close> is the number of microseconds
  since the epoch and a \<open>Decimal\<close> column of scale two is its number of hundredths.
\<close>

type_synonym datetime = int
type_synonym decimal = int

text \<open>\<open>sep.join(parts)\<close>.\<close>

fun join :: "string \<Rightarrow> string list \<Rightarrow> string" where
  "join sep [] = []"
| "join sep [x] = x"
| "join sep (x # y # ys) = x @ sep @ join sep (y # ys)"

text \<open>Truthiness of an optional string: \<open>None\<close> and the empty string are false.\<close>

fun truthy :: "string option \<Rightarrow> bool" where
  "truthy None = False"
| "truthy (Some s) = (s \<noteq> [])"

text \<open>\<open>a or b\<close> on an optional string with a string fallback.\<close>

definition py_or :: "string option \<Rightarrow> string \<Rightarrow> string" where
  "py_or a b = (case a of None \<Rightarrow> b | Some s \<Rightarrow> if s = [] then b else s)"

text \<open>\<open>str(x) if x else ''\<close>.\<close>

definition str_or_empty :: "string option \<Rightarrow> string" where
  "str_or_empty a = (case a of None \<Rightarrow> [] | Some s \<Rightarrow> s)"

text \<open>
  \<open>int(td.total_seconds())\<close> of a difference \<open>td\<close> of two datetimes, given as its number
  \<open>d\<close> of microseconds. \<open>total_seconds()\<close> is the true division \<open>d / 10**6\<close>: the double
  nearest to the quotient (53 significant bits, ties to the even significand), so it is
  not always the exact quotient; \<open>int\<close> then rounds towards zero. The double is computed
  here on integers: \<open>binade d\<close> is the binary exponent of the quotient, \<open>round_div\<close> rounds
  a ratio to the nearest integer with ties to even, and the significand is the quotient
  scaled by \<open>2 ^ (52 - binade d)\<close> and rounded.
\<close>

fun bit_length :: "nat \<Rightarrow> nat" where
  "bit_length n = (if n = 0 then 0 else Suc (bit_length (n div 2)))"

declare bit_length.simps [simp del]

definition round_div :: "int \<Rightarrow> int \<Rightarrow> int" where
  "round_div a b =
     (let q = a div b; r = a mod b
      in if 2 * r < b then q else if 2 * r > b then q + 1 else if even q then q else q + 1)"

definition binade :: "int \<Rightarrow> int" where
  "binade d =
     (if 1000000 \<le> d then int (bit_length (nat (d div 1000000))) - 1
      else - int (bit_length (nat (999999 div d))))"

text \<open>\<open>int(d / 10**6)\<close> for a positive number of microseconds.\<close>

definition float_seconds :: "int \<Rightarrow> int" where
  "float_seconds d =
     (let k = 52 - binade d
      in if 0 \<le> k then round_div (d * 2 ^ nat k) 1000000 div 2 ^ nat k
         else round_div d (1000000 * 2 ^ nat (- k)) * 2 ^ nat (- k))"

definition total_seconds_int :: "int \<Rightarrow> int" where
  "total_seconds_int d =
     (if d = 0 then 0 else if 0 < d then float_seconds d else - float_seconds (- d))"

text \<open>\<open>timedelta(minutes=m)\<close> in microseconds.\<close>

definition minutes :: "int \<Rightarrow> int" where
  "minutes m = m * 60000000"

text \<open>
  What the third-party and standard libraries compute is a parameter of the model: the RSA
  primitive of the \<open>cryptography\<close> package, \<open>base64\<close>, \<open>hashlib\<close>, the ISO rendering of
  datetimes and \<open>str\<close> of a \<open>Decimal\<close>. \<open>rsa_sign\<close> gives \<open>None\<close> when the call raises;
  \<open>b64decode\<close> and \<open>fromisoformat\<close> give \<open>Inl\<close> of the exception's text when they raise.
\<close>

datatype verify_outcome = VerifyOk | InvalidSignature | VerifyError string

record pylib =
  rsa_sign :: "string \<Rightarrow> string \<Rightarrow> string option"
  rsa_verify :: "string \<Rightarrow> string \<Rightarrow> string \<Rightarrow> verify_outcome"
  b64encode :: "string \<Rightarrow> string"
  b64decode :: "string \<Rightarrow> string + string"
  sha256_hexdigest :: "string \<Rightarrow> string"
  isoformat :: "datetime \<Rightarrow> string"
  fromisoformat :: "string \<Rightarrow> string + datetime"
  str_decimal :: "decimal \<Rightarrow> string"

section \<open>SignatureService\<close>

text \<open>
  The class attributes \<open>_private_key\<close>, \<open>_public_key\<close> and \<open>_initialized\<close>. Keys are
  modelled by their serialised form.
\<close>

record sigstate =
  private_key :: "string option"
  public_key :: "string option"
  initialized :: bool

text \<open>
  \<open>initialize\<close>: the key files and the key generator are outside the program, so what
  loading or generating does is the argument \<open>key_source\<close>. \<open>Keys\<close>: both keys are loaded
  or generated and assigned. \<open>PrivateKeyOnly\<close>: \<open>_load_keys\<close> has assigned the private key
  when loading the public key raises, so the attempt fails with \<open>_private_key\<close> set.
  \<open>NoKeys\<close>: the attempt raises before any assignment (\<open>_generate_keys\<close> assigns both
  attributes only at its end).
\<close>

datatype key_source = Keys string string | PrivateKeyOnly string | NoKeys

definition initialize :: "key_source \<Rightarrow> sigstate \<Rightarrow> bool \<times> sigstate" where
  "initialize key_source st =
     (if initialized st then (True, st)
      else (case key_source of
              Keys sk pk \<Rightarrow>
                (True, st\<lparr>private_key := Some sk, public_key := Some pk, initialized := True\<rparr>)
            | PrivateKeyOnly sk \<Rightarrow> (False, st\<lparr>private_key := Some sk\<rparr>)
            | NoKeys \<Rightarrow> (False, st)))"

text \<open>\<open>if not cls._initialized: if not cls.initialize(): ...\<close>, shared by sign and verify.\<close>

definition ensure_initialized :: "key_source \<Rightarrow> sigstate \<Rightarrow> bool \<times> sigstate" where
  "ensure_initialized key_source st =
     (if \<not> initialized st then initialize key_source st else (True, st))"

text \<open>
  The receipt data is a dictionary from field names to strings (both callers build it from
  \<open>str\<close> values); \<open>receipt_data.get(k, default)\<close> is \<open>dict_get\<close>.
\<close>

type_synonym receipt_dict = "string \<rightharpoonup> string"

definition dict_get :: "receipt_dict \<Rightarrow> string \<Rightarrow> string \<Rightarrow> string" where
  "dict_get d k dflt = (case d k of None \<Rightarrow> dflt | Some v \<Rightarrow> v)"

definition create_signing_payload :: "receipt_dict \<Rightarrow> string" where
  "create_signing_payload receipt_data =
     join ''|''
       [ ''receipt_number:'' @ dict_get receipt_data ''receipt_number'' '''',
         ''transaction_reference:'' @ dict_get receipt_data ''reference_number'' '''',
         ''amount:'' @ dict_get receipt_data ''amount'' '''',
         ''currency:'' @ dict_get receipt_data ''currency'' ''PKR'',
         ''customer_name:'' @ dict_get receipt_data ''customer_name'' '''',
         ''customer_account:'' @ dict_get receipt_data ''customer_account'' '''',
         ''transaction_type:'' @ dict_get receipt_data ''transaction_type'' '''',
         ''transaction_date:'' @ dict_get receipt_data ''transaction_date'' '''',
         ''branch_id:'' @ dict_get receipt_data ''branch_id'' '''',
         ''teller_id:'' @ dict_get receipt_data ''processed_by'' '''' ]"

text \<open>The dictionary keys that \<open>create_signing_payload\<close> reads.\<close>

definition signed_keys :: "string list" where
  "signed_keys =
     [ ''receipt_number'', ''reference_number'', ''amount'', ''currency'', ''customer_name'',
       ''customer_account'', ''transaction_type'', ''transaction_date'', ''branch_id'',
       ''processed_by'' ]"

text \<open>
  \<open>sign_receipt\<close> returns the triple (signature, payload hash, timestamp), all \<open>None\<close>
  when the service cannot be initialised or signing raises. \<open>timestamp_iso\<close> is
  \<open>datetime.utcnow().isoformat() + "Z"\<close>, read from the clock by the caller of the model.
\<close>

type_synonym sign_result = "string option \<times> string option \<times> string option"

definition sign_receipt ::
  "pylib \<Rightarrow> key_source \<Rightarrow> sigstate \<Rightarrow> receipt_dict \<Rightarrow> string
     \<Rightarrow> sign_result \<times> sigstate" where
  "sign_receipt L key_source st receipt_data timestamp_iso =
     (case ensure_initialized key_source st of
        (False, st') \<Rightarrow> ((None, None, None), st')
      | (True, st') \<Rightarrow>
          (let receipt_data_with_ts = receipt_data(''signing_timestamp'' \<mapsto> timestamp_iso);
               payload = create_signing_payload receipt_data_with_ts;
               payload_hash = sha256_hexdigest L payload
           in (case private_key st' of
                 None \<Rightarrow> ((None, None, None), st')
               | Some sk \<Rightarrow>
                   (case rsa_sign L sk payload of
                      None \<Rightarrow> ((None, None, None), st')
                    | Some signature \<Rightarrow>
                        ((Some (b64encode L signature), Some payload_hash, Some timestamp_iso),
                         st')))))"

text \<open>\<open>verify_signature\<close> returns (is_valid, message).\<close>

definition verify_signature ::
  "pylib \<Rightarrow> key_source \<Rightarrow> sigstate \<Rightarrow> receipt_dict \<Rightarrow> string \<Rightarrow> string
     \<Rightarrow> (bool \<times> string) \<times> sigstate" where
  "verify_signature L key_source st receipt_data signature_b64 signing_timestamp =
     (case ensure_initialized key_source st of
        (False, st') \<Rightarrow> ((False, ''Signature service not available''), st')
      | (True, st') \<Rightarrow>
          (let receipt_data_with_ts = receipt_data(''signing_timestamp'' \<mapsto> signing_timestamp);
               payload = create_signing_payload receipt_data_with_ts
           in (case b64decode L signature_b64 of
                 Inl e \<Rightarrow> ((False, ''Verification error: '' @ e), st')
               | Inr signature \<Rightarrow>
                   (case public_key st' of
                      None \<Rightarrow>
                        ((False, ''Verification error: '' @ [CHR 0x27] @ ''NoneType''
                            @ [CHR 0x27] @ '' object has no attribute '' @ [CHR 0x27]
                            @ ''verify'' @ [CHR 0x27]), st')
                    | Some pk \<Rightarrow>
                        (case rsa_verify L pk signature payload of
                           VerifyOk \<Rightarrow>
                             ((True, ''Signature verified successfully - Receipt is authentic''),
                              st')
                         | InvalidSignature \<Rightarrow>
                             ((False, ''INVALID SIGNATURE - Receipt may have been tampered with''),
                              st')
                         | VerifyError e \<Rightarrow> ((False, ''Verification error: '' @ e), st'))))))"

text \<open>
  The key material is unavailable when the service cannot be initialised, or is initialised
  without a private key.
\<close>

definition key_unavailable :: "key_source \<Rightarrow> sigstate \<Rightarrow> bool" where
  "key_unavailable key_source st =
     (case ensure_initialized key_source st of
        (False, st') \<Rightarrow> True
      | (True, st') \<Rightarrow> private_key st' = None)"

section \<open>Models\<close>

datatype TransactionType = CASH_DEPOSIT | CHEQUE_DEPOSIT | PAY_ORDER | BILL_PAYMENT | FUND_TRANSFER

datatype TransactionCategory = DEPOSIT | WITHDRAWAL | TRANSFER | PAYMENT

datatype TransactionStatus =
  TXN_INITIATED | TXN_PENDING | TXN_PROCESSING | TXN_COMPLETED | TXN_FAILED | TXN_CANCELLED
  | TXN_REVERSED

datatype Channel = WHATSAPP | WEB | MOBILE | USSD | BRANCH

datatype ReceiptType = DIGITAL | PRINTED | EMAIL

text \<open>
  Modelled from the spec: the enum \<open>DepositSlipStatus\<close> and the table \<open>DigitalDepositSlip\<close>
  are imported from \<open>app.models\<close> but not declared in the models file at hand. The states are
  those of the DepositToken in the data model of the specification; the columns are the
  attributes that \<open>DRIDService\<close> and the deposit-slip endpoints read and write.
\<close>

datatype DepositSlipStatus =
  INITIATED | RETRIEVED | VERIFIED | PROCESSING | COMPLETED | EXPIRED | CANCELLED | REJECTED

text \<open>\<open>member.value\<close> of the string enums, and \<open>Enum[name]\<close> (\<open>None\<close>: KeyError).\<close>

fun TransactionType_value :: "TransactionType \<Rightarrow> string" where
  "TransactionType_value CASH_DEPOSIT = ''CASH_DEPOSIT''"
| "TransactionType_value CHEQUE_DEPOSIT = ''CHEQUE_DEPOSIT''"
| "TransactionType_value PAY_ORDER = ''PAY_ORDER''"
| "TransactionType_value BILL_PAYMENT = ''BILL_PAYMENT''"
| "TransactionType_value FUND_TRANSFER = ''FUND_TRANSFER''"

definition TransactionType_of :: "string \<Rightarrow> TransactionType option" where
  "TransactionType_of name =
     (if name = ''CASH_DEPOSIT'' then Some CASH_DEPOSIT
      else if name = ''CHEQUE_DEPOSIT'' then Some CHEQUE_DEPOSIT
      else if name = ''PAY_ORDER'' then Some PAY_ORDER
      else if name = ''BILL_PAYMENT'' then Some BILL_PAYMENT
      else if name = ''FUND_TRANSFER'' then Some FUND_TRANSFER
      else None)"

definition Channel_of :: "string \<Rightarrow> Channel option" where
  "Channel_of name =
     (if name = ''WHATSAPP'' then Some WHATSAPP
      else if name = ''WEB'' then Some WEB
      else if name = ''MOBILE'' then Some MOBILE
      else if name = ''USSD'' then Some USSD
      else if name = ''BRANCH'' then Some BRANCH
      else None)"

definition ReceiptType_of :: "string \<Rightarrow> ReceiptType option" where
  "ReceiptType_of name =
     (if name = ''DIGITAL'' then Some DIGITAL
      else if name = ''PRINTED'' then Some PRINTED
      else if name = ''EMAIL'' then Some EMAIL
      else None)"

fun DepositSlipStatus_value :: "DepositSlipStatus \<Rightarrow> string" where
  "DepositSlipStatus_value INITIATED = ''INITIATED''"
| "DepositSlipStatus_value RETRIEVED = ''RETRIEVED''"
| "DepositSlipStatus_value VERIFIED = ''VERIFIED''"
| "DepositSlipStatus_value PROCESSING = ''PROCESSING''"
| "DepositSlipStatus_value COMPLETED = ''COMPLETED''"
| "DepositSlipStatus_value EXPIRED = ''EXPIRED''"
| "DepositSlipStatus_value CANCELLED = ''CANCELLED''"
| "DepositSlipStatus_value REJECTED = ''REJECTED''"

text \<open>\<open>str.lower()\<close> on ASCII.\<close>

definition lower :: "string \<Rightarrow> string" where
  "lower s =
     map (\<lambda>c. if 65 \<le> (of_char c :: nat) \<and> (of_char c :: nat) \<le> 90
              then char_of ((of_char c :: nat) + 32) else c) s"

record Customer =
  c_id :: string
  cnic :: string
  full_name :: string
  phone :: string
  email :: "string option"

record Account =
  a_id :: string
  account_number :: string
  a_customer_id :: string
  a_branch_id :: string

record DigitalDepositSlip =
  drid :: string
  status :: DepositSlipStatus
  expires_at :: datetime
  validity_minutes :: int
  transaction_type :: TransactionType
  customer_cnic :: string
  customer_account :: string
  amount :: decimal
  currency :: string
  narration :: "string option"
  depositor_name :: "string option"
  depositor_cnic :: "string option"
  depositor_phone :: "string option"
  depositor_relationship :: "string option"
  channel :: Channel
  device_info :: "string option"
  ip_address :: "string option"
  customer_id :: string
  customer_name :: string
  customer_phone :: string
  customer_email :: "string option"
  account_id :: string
  branch_id :: string
  qr_code_data :: string
  extra_data :: "string option"
  validation_attempts :: int
  last_validation_at :: "datetime option"
  retrieved_at :: "datetime option"
  retrieved_by :: "string option"
  verified_at :: "datetime option"
  verified_by :: "string option"
  completed_at :: "datetime option"
  completed_by :: "string option"
  transaction_id :: "string option"
  cancelled_at :: "datetime option"
  cancelled_by :: "string option"
  cancellation_reason :: "string option"
  rejection_reason :: "string option"

text \<open>The columns of \<open>Transaction\<close> that the services set or read, prefixed \<open>t_\<close>.\<close>

record Transaction =
  t_id :: string
  t_reference_number :: string
  t_transaction_type :: TransactionType
  t_transaction_category :: TransactionCategory
  t_customer_id :: string
  t_customer_cnic :: string
  t_customer_name :: string
  t_customer_account :: string
  t_depositor_cnic :: "string option"
  t_depositor_name :: "string option"
  t_depositor_phone :: "string option"
  t_amount :: decimal
  t_currency :: string
  t_exchange_rate :: decimal
  t_amount_in_base_currency :: decimal
  t_fee :: decimal
  t_tax :: decimal
  t_total_amount :: decimal
  t_status :: TransactionStatus
  t_channel :: Channel
  t_narration :: "string option"
  t_branch_id :: "string option"
  t_processed_by :: "string option"
  t_completed_at :: "datetime option"
  t_extra_data :: "string option"
  t_created_at :: datetime

text \<open>
  Modelled from the spec: the signature columns of \<open>Receipt\<close> (\<open>digital_signature\<close>,
  \<open>signature_hash\<close>, \<open>signature_timestamp\<close>, \<open>signature_algorithm\<close>,
  \<open>is_signature_valid\<close>) are not declared in the models file at hand. They are the fields
  of the SignedReceipt of the specification, typed as \<open>create_receipt\<close> assigns them.
\<close>

record Receipt =
  r_id :: string
  r_transaction_id :: string
  receipt_number :: string
  receipt_type :: ReceiptType
  verification_qr_data :: "string option"
  verification_url :: "string option"
  is_verified :: bool
  verified_count :: int
  last_verified_at :: "datetime option"
  digital_signature :: "string option"
  signature_hash :: "string option"
  signature_timestamp :: "datetime option"
  signature_algorithm :: "string option"
  is_signature_valid :: bool
  r_created_at :: datetime

text \<open>
  The session: one list of rows per table. \<open>query(T).filter(p).first()\<close> is
  \<open>find p\<close> on the table; assigning to attributes of the row that \<open>first()\<close> returned and
  committing is \<open>update_first\<close>.
\<close>

record db =
  customers :: "Customer list"
  accounts :: "Account list"
  slips :: "DigitalDepositSlip list"
  transactions :: "Transaction list"
  receipts :: "Receipt list"

fun update_first :: "('a \<Rightarrow> bool) \<Rightarrow> ('a \<Rightarrow> 'a) \<Rightarrow> 'a list \<Rightarrow> 'a list" where
  "update_first p f [] = []"
| "update_first p f (x # xs) = (if p x then f x # xs else x # update_first p f xs)"

definition get_slip :: "db \<Rightarrow> string \<Rightarrow> DigitalDepositSlip option" where
  "get_slip d i = find (\<lambda>s. drid s = i) (slips d)"

definition put_slip :: "db \<Rightarrow> string \<Rightarrow> (DigitalDepositSlip \<Rightarrow> DigitalDepositSlip) \<Rightarrow> db" where
  "put_slip d i f = d\<lparr>slips := update_first (\<lambda>s. drid s = i) f (slips d)\<rparr>"

section \<open>DRIDService\<close>

text \<open>
  Every operation reads the clock (\<open>datetime.utcnow()\<close>) through its argument \<open>now\<close>; the
  reads within one call are taken at the same instant.
\<close>

record DRIDValidationResult =
  is_valid :: bool
  is_expired :: bool
  is_used :: bool
  is_cancelled :: bool
  result_status :: string
  message :: string
  time_remaining_seconds :: "int option"

definition validate_drid :: "db \<Rightarrow> string \<Rightarrow> datetime \<Rightarrow> DRIDValidationResult \<times> db" where
  "validate_drid d i now =
     (case get_slip d i of
        None \<Rightarrow>
          (\<lparr>is_valid = False, is_expired = False, is_used = False, is_cancelled = False,
            result_status = ''NOT_FOUND'', message = ''DRID not found'',
            time_remaining_seconds = None\<rparr>, d)
      | Some slip0 \<Rightarrow>
          (let d1 = put_slip d i (\<lambda>s. s\<lparr>validation_attempts := validation_attempts s + 1,
                                        last_validation_at := Some now\<rparr>);
               expired = (now > expires_at slip0);
               time_remaining =
                 (if \<not> expired then max 0 (total_seconds_int (expires_at slip0 - now)) else 0)
           in if expired \<and> status slip0 = INITIATED then
                (\<lparr>is_valid = False, is_expired = True, is_used = False, is_cancelled = False,
                  result_status = DepositSlipStatus_value EXPIRED,
                  message = ''DRID has expired'', time_remaining_seconds = Some 0\<rparr>,
                 put_slip d1 i (\<lambda>s. s\<lparr>status := EXPIRED\<rparr>))
              else if status slip0 \<in> set [COMPLETED, PROCESSING] then
                (\<lparr>is_valid = False, is_expired = False, is_used = True, is_cancelled = False,
                  result_status = DepositSlipStatus_value (status slip0),
                  message = ''DRID has already been used'',
                  time_remaining_seconds = Some time_remaining\<rparr>, d1)
              else if status slip0 \<in> set [CANCELLED, REJECTED] then
                (\<lparr>is_valid = False, is_expired = False, is_used = False, is_cancelled = True,
                  result_status = DepositSlipStatus_value (status slip0),
                  message = ''DRID has been '' @ lower (DepositSlipStatus_value (status slip0)),
                  time_remaining_seconds = Some time_remaining\<rparr>, d1)
              else
                (\<lparr>is_valid = True, is_expired = False, is_used = False, is_cancelled = False,
                  result_status = DepositSlipStatus_value (status slip0),
                  message = ''DRID is valid'',
                  time_remaining_seconds = Some time_remaining\<rparr>, d1)))"

text \<open>
  The service methods return a tuple (slip or \<open>None\<close>, error message or \<open>None\<close>); the model
  returns the tuple and the session after the call.
\<close>

type_synonym slip_result = "DigitalDepositSlip option \<times> string option"

definition verify_deposit_slip ::
  "db \<Rightarrow> string \<Rightarrow> string \<Rightarrow> bool \<Rightarrow> bool \<Rightarrow> bool option \<Rightarrow> datetime \<Rightarrow> slip_result \<times> db" where
  "verify_deposit_slip d i teller_id amount_confirmed depositor_verified instrument_verified now =
     (case get_slip d i of
        None \<Rightarrow> ((None, Some ''DRID not found''), d)
      | Some slip0 \<Rightarrow>
          if status slip0 \<noteq> RETRIEVED then
            ((None, Some (''Cannot verify: current status is ''
                          @ DepositSlipStatus_value (status slip0))), d)
          else if now > expires_at slip0 then
            ((None, Some ''DRID has expired''), put_slip d i (\<lambda>s. s\<lparr>status := EXPIRED\<rparr>))
          else if \<not> amount_confirmed then ((None, Some ''Amount must be confirmed''), d)
          else if \<not> depositor_verified then
            ((None, Some ''Depositor identity must be verified''), d)
          else if transaction_type slip0 \<in> set [CHEQUE_DEPOSIT, PAY_ORDER]
                  \<and> (instrument_verified = None \<or> instrument_verified = Some False) then
            ((None, Some ''Instrument must be verified for cheque/pay order transactions''), d)
          else
            (let d1 = put_slip d i (\<lambda>s. s\<lparr>status := VERIFIED, verified_at := Some now,
                                          verified_by := Some teller_id\<rparr>)
             in ((get_slip d1 i, None), d1)))"

definition cancel_deposit_slip ::
  "db \<Rightarrow> string \<Rightarrow> string option \<Rightarrow> string \<Rightarrow> datetime \<Rightarrow> slip_result \<times> db" where
  "cancel_deposit_slip d i by reason now =
     (case get_slip d i of
        None \<Rightarrow> ((None, Some ''DRID not found''), d)
      | Some slip0 \<Rightarrow>
          if status slip0 \<in> set [COMPLETED, EXPIRED] then
            ((None, Some (''Cannot cancel: current status is ''
                          @ DepositSlipStatus_value (status slip0))), d)
          else
            (let d1 = put_slip d i
                   (\<lambda>s. s\<lparr>status := CANCELLED, cancelled_at := Some now,
                          cancelled_by := (if truthy by \<and> by \<noteq> Some ''CUSTOMER'' then by else None),
                          cancellation_reason := Some reason\<rparr>)
             in ((get_slip d1 i, None), d1)))"

text \<open>
  The endpoint \<open>teller_reject_deposit_slip\<close> of the deposit-slip router: it answers with an
  HTTP error (404 or 400, with its detail) or with the success body.
\<close>

datatype reject_response = HTTPException nat string | RejectOk string string

definition teller_reject_deposit_slip ::
  "db \<Rightarrow> string \<Rightarrow> string \<Rightarrow> string \<Rightarrow> datetime \<Rightarrow> reject_response \<times> db" where
  "teller_reject_deposit_slip d i reason current_user_id now =
     (case get_slip d i of
        None \<Rightarrow> (HTTPException 404 ''DRID not found'', d)
      | Some slip0 \<Rightarrow>
          if status slip0 \<in> set [COMPLETED, EXPIRED] then
            (HTTPException 400 (''Cannot reject: current status is ''
                                @ DepositSlipStatus_value (status slip0)), d)
          else
            (RejectOk i reason,
             put_slip d i (\<lambda>s. s\<lparr>status := REJECTED, rejection_reason := Some reason,
                                 cancelled_at := Some now,
                                 cancelled_by := Some current_user_id\<rparr>)))"

section \<open>ReceiptService\<close>

definition get_receipt :: "db \<Rightarrow> string \<Rightarrow> Receipt option" where
  "get_receipt d n = find (\<lambda>r. receipt_number r = n) (receipts d)"

definition put_receipt :: "db \<Rightarrow> string \<Rightarrow> (Receipt \<Rightarrow> Receipt) \<Rightarrow> db" where
  "put_receipt d n f = d\<lparr>receipts := update_first (\<lambda>r. receipt_number r = n) f (receipts d)\<rparr>"

text \<open>\<open>verify_receipt\<close> returns (receipt, is_valid, message).\<close>

definition verify_receipt ::
  "db \<Rightarrow> string \<Rightarrow> datetime \<Rightarrow> (Receipt option \<times> bool \<times> string) \<times> db" where
  "verify_receipt d n now =
     (case get_receipt d n of
        None \<Rightarrow> ((None, False, ''Receipt not found''), d)
      | Some r0 \<Rightarrow>
          (let d1 = put_receipt d n (\<lambda>r. r\<lparr>verified_count := verified_count r + 1,
                                          last_verified_at := Some now,
                                          is_verified := True\<rparr>)
           in ((get_receipt d1 n, True, ''Receipt verified successfully''), d1)))"

definition generate_receipt_number :: "string \<Rightarrow> string \<Rightarrow> string" where
  "generate_receipt_number date_part unique_part = ''RCP-'' @ date_part @ ''-'' @ unique_part"

text \<open>
  The dictionary that \<open>create_receipt\<close> and \<open>verify_receipt_signature\<close> both build from the
  receipt number and the transaction. \<open>transaction_type\<close> and \<open>created_at\<close> are not nullable
  and always truthy, so their conditionals take the first branch.
\<close>

definition receipt_data_of :: "pylib \<Rightarrow> string \<Rightarrow> Transaction \<Rightarrow> receipt_dict" where
  "receipt_data_of L number t =
     [ ''receipt_number'' \<mapsto> number,
       ''reference_number'' \<mapsto> t_reference_number t,
       ''amount'' \<mapsto> str_decimal L (t_amount t),
       ''currency'' \<mapsto> t_currency t,
       ''customer_name'' \<mapsto> t_customer_name t,
       ''customer_account'' \<mapsto> t_customer_account t,
       ''transaction_type'' \<mapsto> TransactionType_value (t_transaction_type t),
       ''transaction_date'' \<mapsto> isoformat L (t_created_at t),
       ''branch_id'' \<mapsto> str_or_empty (t_branch_id t),
       ''processed_by'' \<mapsto> str_or_empty (t_processed_by t) ]"

text \<open>\<open>s.replace('Z', '+00:00')\<close>.\<close>

definition replace_Z :: "string \<Rightarrow> string" where
  "replace_Z s = concat (map (\<lambda>c. if c = CHR ''Z'' then ''+00:00'' else [c]) s)"

text \<open>
  The two ways in which a step of the completion can fail. \<open>PythonError e\<close>: an exception
  with text \<open>e\<close> is raised before the new row is added to the session, which stays usable
  (a failure injected between the two writes). \<open>CommitError e\<close>: the \<open>db.commit()\<close> of the new
  row fails in its flush (an integrity or database error); nothing of that commit is
  stored and the session refuses further work until \<open>db.rollback()\<close> is called, which no
  service does, so that the next \<open>db.commit()\<close> raises PendingRollbackError.
\<close>

datatype failure = PythonError string | CommitError string

text \<open>
  What \<open>create_receipt\<close> takes from outside the program: the two parts of the receipt
  number (local date and uuid prefix), the primary key of the new row, what \<open>QRService\<close>
  renders, the signing timestamp, and \<open>receipt_error\<close>: the failure of creating or
  committing the receipt (\<open>None\<close>: it succeeds).
\<close>

record receipt_env =
  rn_date_part :: string
  rn_unique_part :: string
  new_receipt_id :: string
  qr_code_base64 :: string
  qr_url :: string
  sign_timestamp_iso :: string
  receipt_error :: "failure option"

definition create_receipt ::
  "pylib \<Rightarrow> key_source \<Rightarrow> receipt_env \<Rightarrow> datetime \<Rightarrow> sigstate \<Rightarrow> db
     \<Rightarrow> Transaction \<Rightarrow> string \<Rightarrow> (failure + Receipt) \<times> db \<times> sigstate" where
  "create_receipt L key_source E now st d transaction rtype =
     (let number = generate_receipt_number (rn_date_part E) (rn_unique_part E);
          receipt_data = receipt_data_of L number transaction
      in (case sign_receipt L key_source st receipt_data (sign_timestamp_iso E) of
            ((signature, sig_hash, sig_timestamp), st') \<Rightarrow>
              (let sig_timestamp_dt =
                     (case sig_timestamp of
                        None \<Rightarrow> None
                      | Some ts \<Rightarrow>
                          if ts = [] then None
                          else Some (case fromisoformat L (replace_Z ts) of
                                       Inl e \<Rightarrow> now | Inr dt \<Rightarrow> dt))
               in (case ReceiptType_of rtype of
                     None \<Rightarrow> (Inl (PythonError ([CHR 0x27] @ rtype @ [CHR 0x27])), d, st')
                   | Some rt \<Rightarrow>
                       (case receipt_error E of
                          Some f \<Rightarrow> (Inl f, d, st')
                        | None \<Rightarrow>
                            (let receipt =
                                   \<lparr>r_id = new_receipt_id E,
                                    r_transaction_id = t_id transaction,
                                    receipt_number = number,
                                    receipt_type = rt,
                                    verification_qr_data = Some (qr_code_base64 E),
                                    verification_url = Some (qr_url E),
                                    is_verified = False,
                                    verified_count = 0,
                                    last_verified_at = None,
                                    digital_signature = signature,
                                    signature_hash = sig_hash,
                                    signature_timestamp = sig_timestamp_dt,
                                    signature_algorithm = Some ''RSA-SHA256'',
                                    is_signature_valid = (signature \<noteq> None),
                                    r_created_at = now\<rparr>
                             in (Inr receipt, d\<lparr>receipts := receipts d @ [receipt]\<rparr>, st')))))))"

text \<open>\<open>verify_receipt_signature\<close> returns (is_valid, message, receipt).\<close>

definition verify_receipt_signature ::
  "pylib \<Rightarrow> key_source \<Rightarrow> sigstate \<Rightarrow> db \<Rightarrow> string
     \<Rightarrow> (bool \<times> string \<times> Receipt option) \<times> db \<times> sigstate" where
  "verify_receipt_signature L key_source st d n =
     (case get_receipt d n of
        None \<Rightarrow> ((False, ''Receipt not found'', None), d, st)
      | Some receipt \<Rightarrow>
          (case digital_signature receipt of
             None \<Rightarrow> ((False, ''Receipt was not digitally signed'', Some receipt), d, st)
           | Some sig \<Rightarrow>
               if sig = [] then
                 ((False, ''Receipt was not digitally signed'', Some receipt), d, st)
               else
                 (case find (\<lambda>t. t_id t = r_transaction_id receipt) (transactions d) of
                    None \<Rightarrow> ((False, ''Transaction data not found'', Some receipt), d, st)
                  | Some transaction \<Rightarrow>
                      (case signature_timestamp receipt of
                         None \<Rightarrow> ((False, ''Signature timestamp missing'', Some receipt), d, st)
                       | Some ts \<Rightarrow>
                           (case verify_signature L key_source st
                                   (receipt_data_of L (receipt_number receipt) transaction)
                                   sig (isoformat L ts @ ''Z'') of
                              ((valid, msg), st') \<Rightarrow>
                                (let d' = (if is_signature_valid receipt \<noteq> valid
                                           then put_receipt d n (\<lambda>r. r\<lparr>is_signature_valid := valid\<rparr>)
                                           else d)
                                 in ((valid, msg, get_receipt d' n), d', st')))))))"

section \<open>Completion and issuance\<close>

text \<open>\<open>category_map.get(slip.transaction_type, TransactionCategory.DEPOSIT)\<close>.\<close>

fun category_map :: "TransactionType \<Rightarrow> TransactionCategory" where
  "category_map CASH_DEPOSIT = DEPOSIT"
| "category_map CHEQUE_DEPOSIT = DEPOSIT"
| "category_map PAY_ORDER = PAYMENT"
| "category_map BILL_PAYMENT = PAYMENT"
| "category_map FUND_TRANSFER = TRANSFER"

text \<open>
  What \<open>complete_deposit_slip\<close> takes from outside the program: the two parts of the
  transaction reference, the primary key of the new transaction, \<open>transaction_error\<close> (the
  failure of creating or committing the transaction) and the environment of
  \<open>create_receipt\<close>.

  The call returns its triple (slip, transaction, error message) or an exception escapes
  it. Its handler \<open>except Exception as e\<close> sets the status back to VERIFIED and commits:
  after a \<open>PythonError\<close> that commit succeeds and the message is returned; after a
  \<open>CommitError\<close> that commit itself raises PendingRollbackError, which escapes the call,
  and what is stored is what the last successful commit stored (the status PROCESSING).
\<close>

record complete_env =
  txn_date_part :: string
  txn_unique_part :: string
  new_transaction_id :: string
  transaction_error :: "failure option"
  receipt_environment :: receipt_env

type_synonym complete_result = "DigitalDepositSlip option \<times> Transaction option \<times> string option"

datatype completion = Returned complete_result | Raised string

definition complete_deposit_slip ::
  "pylib \<Rightarrow> key_source \<Rightarrow> complete_env \<Rightarrow> datetime \<Rightarrow> sigstate \<Rightarrow> db
     \<Rightarrow> string \<Rightarrow> string \<Rightarrow> bool \<Rightarrow> completion \<times> db \<times> sigstate" where
  "complete_deposit_slip L key_source E now st d i teller_id authorization_captured =
     (case get_slip d i of
        None \<Rightarrow> (Returned (None, None, Some ''DRID not found''), d, st)
      | Some slip0 \<Rightarrow>
          if status slip0 \<noteq> VERIFIED then
            (Returned (None, None, Some (''Cannot complete: current status is ''
                                         @ DepositSlipStatus_value (status slip0))), d, st)
          else if now > expires_at slip0 then
            (Returned (None, None, Some ''DRID has expired''),
             put_slip d i (\<lambda>s. s\<lparr>status := EXPIRED\<rparr>), st)
          else if \<not> authorization_captured then
            (Returned (None, None, Some ''Customer authorization must be captured''), d, st)
          else
            (let d1 = put_slip d i (\<lambda>s. s\<lparr>status := PROCESSING\<rparr>);
                 ref_number = ''TXN-'' @ txn_date_part E @ ''-'' @ txn_unique_part E;
                 category = category_map (transaction_type slip0);
                 transaction =
                   \<lparr>t_id = new_transaction_id E,
                    t_reference_number = ref_number,
                    t_transaction_type = transaction_type slip0,
                    t_transaction_category = category,
                    t_customer_id = customer_id slip0,
                    t_customer_cnic = customer_cnic slip0,
                    t_customer_name = customer_name slip0,
                    t_customer_account = customer_account slip0,
                    t_depositor_cnic = depositor_cnic slip0,
                    t_depositor_name = depositor_name slip0,
                    t_depositor_phone = depositor_phone slip0,
                    t_amount = amount slip0,
                    t_currency = currency slip0,
                    t_exchange_rate = 100,
                    t_amount_in_base_currency = amount slip0,
                    t_fee = 0,
                    t_tax = 0,
                    t_total_amount = amount slip0,
                    t_status = TXN_COMPLETED,
                    t_channel = channel slip0,
                    t_narration = Some (py_or (narration slip0) (''Deposit via DRID: '' @ i)),
                    t_branch_id = Some (branch_id slip0),
                    t_processed_by = Some teller_id,
                    t_completed_at = Some now,
                    t_extra_data = extra_data slip0,
                    t_created_at = now\<rparr>
             in (case transaction_error E of
                   Some (PythonError e) \<Rightarrow>
                     (Returned (None, None, Some (''Error creating transaction: '' @ e)),
                      put_slip d1 i (\<lambda>s. s\<lparr>status := VERIFIED\<rparr>), st)
                 | Some (CommitError e) \<Rightarrow> (Raised ''PendingRollbackError'', d1, st)
                 | None \<Rightarrow>
                     (let d2 = d1\<lparr>transactions := transactions d1 @ [transaction]\<rparr>
                      in (case create_receipt L key_source (receipt_environment E) now st d2
                                 transaction ''DIGITAL'' of
                            (Inl (PythonError e), d3, st') \<Rightarrow>
                              (Returned (None, None, Some (''Error creating transaction: '' @ e)),
                               put_slip d3 i (\<lambda>s. s\<lparr>status := VERIFIED\<rparr>), st')
                          | (Inl (CommitError e), d3, st') \<Rightarrow>
                              (Raised ''PendingRollbackError'', d3, st')
                          | (Inr receipt, d3, st') \<Rightarrow>
                              (let d4 = put_slip d3 i
                                     (\<lambda>s. s\<lparr>status := COMPLETED, completed_at := Some now,
                                            completed_by := Some teller_id,
                                            transaction_id := Some (t_id transaction)\<rparr>)
                               in (Returned (get_slip d4 i, Some transaction, None), d4,
                                   st')))))))"

text \<open>The arguments of \<open>create_deposit_slip\<close>, prefixed \<open>rq_\<close>.\<close>

record deposit_request =
  rq_transaction_type :: string
  rq_customer_cnic :: string
  rq_customer_account :: string
  rq_amount :: decimal
  rq_currency :: string
  rq_narration :: "string option"
  rq_depositor_name :: "string option"
  rq_depositor_cnic :: "string option"
  rq_depositor_phone :: "string option"
  rq_depositor_relationship :: "string option"
  rq_channel :: string
  rq_device_info :: "string option"
  rq_ip_address :: "string option"
  rq_validity_minutes :: "int option"
  rq_additional_data :: "string option"

definition DEFAULT_VALIDITY_MINUTES :: int where
  "DEFAULT_VALIDITY_MINUTES = 60"

definition DRID_PREFIX :: string where
  "DRID_PREFIX = ''DRID''"

definition generate_drid :: "string \<Rightarrow> string \<Rightarrow> string" where
  "generate_drid date_part unique_part = DRID_PREFIX @ ''-'' @ date_part @ ''-'' @ unique_part"

text \<open>
  \<open>drid = generate_drid(); while <a slip has this drid>: drid = generate_drid()\<close>. The
  uuid prefixes that the generator yields, in order, are the list \<open>us\<close>; the loop has not
  stopped within them when the result is \<open>None\<close>.
\<close>

fun unique_drid :: "db \<Rightarrow> string \<Rightarrow> string list \<Rightarrow> string option" where
  "unique_drid d date_part [] = None"
| "unique_drid d date_part (u # us) =
     (if get_slip d (generate_drid date_part u) = None then Some (generate_drid date_part u)
      else unique_drid d date_part us)"

record create_env =
  drid_date_part :: string
  drid_unique_parts :: "string list"
  drid_qr_code :: string

text \<open>
  A call returns its tuple, raises (an enum lookup by an unknown name: KeyError), or does
  not come back from the uniqueness loop.
\<close>

datatype create_outcome = Returns slip_result | Raises string | Loops

definition active_slip :: "db \<Rightarrow> string \<Rightarrow> string \<Rightarrow> datetime \<Rightarrow> DigitalDepositSlip option" where
  "active_slip d c a now =
     find (\<lambda>s. customer_cnic s = c \<and> customer_account s = a
              \<and> status s \<in> set [INITIATED, RETRIEVED, VERIFIED] \<and> expires_at s > now)
          (slips d)"

definition create_deposit_slip ::
  "create_env \<Rightarrow> datetime \<Rightarrow> db \<Rightarrow> deposit_request \<Rightarrow> create_outcome \<times> db" where
  "create_deposit_slip E now d rq =
     (let validity = (case rq_validity_minutes rq of
                        None \<Rightarrow> DEFAULT_VALIDITY_MINUTES
                      | Some v \<Rightarrow> if v = 0 then DEFAULT_VALIDITY_MINUTES else v)
      in (case find (\<lambda>c. cnic c = rq_customer_cnic rq) (customers d) of
            None \<Rightarrow>
              (Returns (None, Some (''Customer with CNIC '' @ rq_customer_cnic rq
                                    @ '' not found'')), d)
          | Some customer \<Rightarrow>
              (case find (\<lambda>a. account_number a = rq_customer_account rq) (accounts d) of
                 None \<Rightarrow>
                   (Returns (None, Some (''Account '' @ rq_customer_account rq
                                         @ '' not found'')), d)
               | Some account \<Rightarrow>
                   if a_customer_id account \<noteq> c_id customer then
                     (Returns (None, Some ''Account does not belong to the specified customer''),
                      d)
                   else
                     (case active_slip d (rq_customer_cnic rq) (rq_customer_account rq) now of
                        Some existing \<Rightarrow>
                          (Returns (None, Some (''EXISTING_SLIP:'' @ drid existing)), d)
                      | None \<Rightarrow>
                          (case unique_drid d (drid_date_part E) (drid_unique_parts E) of
                             None \<Rightarrow> (Loops, d)
                           | Some new_drid \<Rightarrow>
                               (case TransactionType_of (rq_transaction_type rq) of
                                  None \<Rightarrow>
                                    (Raises ([CHR 0x27] @ rq_transaction_type rq @ [CHR 0x27]),
                                     d)
                                | Some ty \<Rightarrow>
                                    (case Channel_of (rq_channel rq) of
                                       None \<Rightarrow>
                                         (Raises ([CHR 0x27] @ rq_channel rq @ [CHR 0x27]), d)
                                     | Some ch \<Rightarrow>
                                         (let deposit_slip =
                                                \<lparr>drid = new_drid,
                                                 status = INITIATED,
                                                 expires_at = now + minutes validity,
                                                 validity_minutes = validity,
                                                 transaction_type = ty,
                                                 customer_cnic = rq_customer_cnic rq,
                                                 customer_account = rq_customer_account rq,
                                                 amount = rq_amount rq,
                                                 currency = rq_currency rq,
                                                 narration = rq_narration rq,
                                                 depositor_name =
                                                   Some (py_or (rq_depositor_name rq)
                                                               (full_name customer)),
                                                 depositor_cnic = rq_depositor_cnic rq,
                                                 depositor_phone =
                                                   Some (py_or (rq_depositor_phone rq)
                                                               (phone customer)),
                                                 depositor_relationship =
                                                   rq_depositor_relationship rq,
                                                 channel = ch,
                                                 device_info = rq_device_info rq,
                                                 ip_address = rq_ip_address rq,
                                                 customer_id = c_id customer,
                                                 customer_name = full_name customer,
                                                 customer_phone = phone customer,
                                                 customer_email = email customer,
                                                 account_id = a_id account,
                                                 branch_id = a_branch_id account,
                                                 qr_code_data = drid_qr_code E,
                                                 extra_data = rq_additional_data rq,
                                                 validation_attempts = 0,
                                                 last_validation_at = None,
                                                 retrieved_at = None,
                                                 retrieved_by = None,
                                                 verified_at = None,
                                                 verified_by = None,
                                                 completed_at = None,
                                                 completed_by = None,
                                                 transaction_id = None,
                                                 cancelled_at = None,
                                                 cancelled_by = None,
                                                 cancellation_reason = None,
                                                 rejection_reason = None\<rparr>
                                          in (Returns (Some deposit_slip, None),
                                              d\<lparr>slips := slips d @ [deposit_slip]\<rparr>)))))))))"

section \<open>Test data\<close>

text \<open>
  A test double for the libraries (a signature is the key followed by the payload, accepted
  exactly when it is that string), and the rows of the scenario of the specification:
  account \<open>A-001\<close>, amount 50000 PKR, validity 60 minutes from instant 0.
\<close>

definition test_lib :: pylib where
  "test_lib =
     \<lparr>rsa_sign = (\<lambda>sk p. Some (sk @ p)),
      rsa_verify = (\<lambda>pk s p. if s = pk @ p then VerifyOk else InvalidSignature),
      b64encode = (\<lambda>s. s),
      b64decode = Inr,
      sha256_hexdigest = (\<lambda>s. s),
      isoformat = (\<lambda>t. ''T''),
      fromisoformat = (\<lambda>s. Inr 0),
      str_decimal = (\<lambda>a. ''50000.00'')\<rparr>"

definition test_keys :: sigstate where
  "test_keys = \<lparr>private_key = Some ''k'', public_key = Some ''k'', initialized = True\<rparr>"

definition no_keys :: sigstate where
  "no_keys = \<lparr>private_key = None, public_key = None, initialized = False\<rparr>"

definition test_customer :: Customer where
  "test_customer =
     \<lparr>c_id = ''C-1'', cnic = ''35202-1234567-1'', full_name = ''Ali'', phone = ''0300'',
      email = None\<rparr>"

definition test_account :: Account where
  "test_account =
     \<lparr>a_id = ''AC-1'', account_number = ''A-001'', a_customer_id = ''C-1'',
      a_branch_id = ''B-1''\<rparr>"

definition test_slip :: DigitalDepositSlip where
  "test_slip =
     \<lparr>drid = ''T-1'', status = INITIATED, expires_at = 3600000000, validity_minutes = 60,
      transaction_type = CASH_DEPOSIT, customer_cnic = ''35202-1234567-1'',
      customer_account = ''A-001'', amount = 5000000, currency = ''PKR'', narration = None,
      depositor_name = Some ''Ali'', depositor_cnic = None, depositor_phone = Some ''0300'',
      depositor_relationship = Some ''SELF'', channel = WEB, device_info = None,
      ip_address = None, customer_id = ''C-1'', customer_name = ''Ali'',
      customer_phone = ''0300'', customer_email = None, account_id = ''AC-1'',
      branch_id = ''B-1'', qr_code_data = ''qr'', extra_data = None, validation_attempts = 0,
      last_validation_at = None, retrieved_at = None, retrieved_by = None, verified_at = None,
      verified_by = None, completed_at = None, completed_by = None, transaction_id = None,
      cancelled_at = None, cancelled_by = None, cancellation_reason = None,
      rejection_reason = None\<rparr>"

definition test_db :: "DepositSlipStatus \<Rightarrow> db" where
  "test_db st =
     \<lparr>customers = [test_customer], accounts = [test_account],
      slips = [test_slip\<lparr>status := st\<rparr>], transactions = [], receipts = []\<rparr>"

definition test_request :: deposit_request where
  "test_request =
     \<lparr>rq_transaction_type = ''CASH_DEPOSIT'', rq_customer_cnic = ''35202-1234567-1'',
      rq_customer_account = ''A-001'', rq_amount = 5000000, rq_currency = ''PKR'',
      rq_narration = None, rq_depositor_name = None, rq_depositor_cnic = None,
      rq_depositor_phone = None, rq_depositor_relationship = Some ''SELF'',
      rq_channel = ''WEB'', rq_device_info = None, rq_ip_address = None,
      rq_validity_minutes = None, rq_additional_data = None\<rparr>"

definition test_create_env :: create_env where
  "test_create_env =
     \<lparr>drid_date_part = ''20240101'', drid_unique_parts = [''ABC123''], drid_qr_code = ''qr''\<rparr>"

definition test_receipt_env :: "failure option \<Rightarrow> receipt_env" where
  "test_receipt_env err =
     \<lparr>rn_date_part = ''20240101'', rn_unique_part = ''0000AAAA'', new_receipt_id = ''R-1'',
      qr_code_base64 = ''qr'', qr_url = ''url'', sign_timestamp_iso = ''TZ'',
      receipt_error = err\<rparr>"

definition test_complete_env :: "failure option \<Rightarrow> complete_env" where
  "test_complete_env err =
     \<lparr>txn_date_part = ''20240101'', txn_unique_part = ''1111BBBB'',
      new_transaction_id = ''F-1'', transaction_error = None,
      receipt_environment = test_receipt_env err\<rparr>"

definition test_receipt :: Receipt where
  "test_receipt =
     \<lparr>r_id = ''R-1'', r_transaction_id = ''F-1'', receipt_number = ''RCP-1'',
      receipt_type = DIGITAL, verification_qr_data = None, verification_url = None,
      is_verified = False, verified_count = 0, last_verified_at = None,
      digital_signature = None, signature_hash = None, signature_timestamp = None,
      signature_algorithm = Some ''RSA-SHA256'', is_signature_valid = False,
      r_created_at = 0\<rparr>"

definition test_receipt_db :: db where
  "test_receipt_db =
     \<lparr>customers = [], accounts = [], slips = [], transactions = [],
      receipts = [test_receipt]\<rparr>"

definition test_receipt_data :: receipt_dict where
  "test_receipt_data =
     [ ''receipt_number'' \<mapsto> ''R-1'', ''reference_number'' \<mapsto> ''F-1'',
       ''amount'' \<mapsto> ''50000'', ''currency'' \<mapsto> ''PKR'' ]"


section \<open>Lookups after updates\<close>

lemma find_update_first:
  assumes "\<And>x. p x \<Longrightarrow> p (f x)"
  shows "find p (update_first p f xs) = map_option f (find p xs)"
  using assms by (induction xs) auto

lemma get_slip_put_slip:
  assumes "\<And>s. drid (f s) = drid s"
  shows "get_slip (put_slip d i f) i = map_option f (get_slip d i)"
  unfolding get_slip_def put_slip_def using assms by (simp add: find_update_first)

lemma get_receipt_put_receipt:
  assumes "\<And>r. receipt_number (f r) = receipt_number r"
  shows "get_receipt (put_receipt d n f) n = map_option f (get_receipt d n)"
  unfolding get_receipt_def put_receipt_def using assms by (simp add: find_update_first)

lemma get_slip_test_db: "get_slip (test_db st) ''T-1'' = Some (test_slip\<lparr>status := st\<rparr>)"
  by (simp add: get_slip_def test_db_def test_slip_def)

lemma get_receipt_test: "get_receipt test_receipt_db ''RCP-1'' = Some test_receipt"
  by (simp add: get_receipt_def test_receipt_db_def test_receipt_def)

section \<open>Receipt lookup by number\<close>

text \<open>
  Claim C10. \<open>verify_receipt\<close> answers \<open>is_valid = True\<close> with the message
  "Receipt verified successfully" for every receipt that exists, whatever its
  \<open>digital_signature\<close> and \<open>is_signature_valid\<close> are; it answers \<open>False\<close> only when no receipt
  has that number; and it increments \<open>verified_count\<close>, sets \<open>is_verified\<close> and stamps
  \<open>last_verified_at\<close> on the stored row.
\<close>

theorem verify_receipt_valid_iff_exists:
  "(get_receipt d n = None \<longrightarrow> verify_receipt d n now = ((None, False, ''Receipt not found''), d))
   \<and> (\<forall>r. get_receipt d n = Some r \<longrightarrow>
         fst (verify_receipt d n now) =
           (Some (r\<lparr>verified_count := verified_count r + 1, last_verified_at := Some now,
                    is_verified := True\<rparr>), True, ''Receipt verified successfully'')
         \<and> get_receipt (snd (verify_receipt d n now)) n =
             Some (r\<lparr>verified_count := verified_count r + 1, last_verified_at := Some now,
                    is_verified := True\<rparr>))"
  by (simp add: verify_receipt_def Let_def get_receipt_put_receipt)

theorem verify_receipt_valid_iff_exists_witness:
  "digital_signature test_receipt = None \<and> \<not> is_signature_valid test_receipt
   \<and> fst (verify_receipt test_receipt_db ''RCP-1'' 7) =
       (Some (test_receipt\<lparr>verified_count := 1, last_verified_at := Some 7, is_verified := True\<rparr>),
        True, ''Receipt verified successfully'')
   \<and> fst (verify_receipt test_receipt_db ''RCP-2'' 7) = (None, False, ''Receipt not found'')"
proof -
  have a: "get_receipt test_receipt_db ''RCP-2'' = None"
    by (simp add: get_receipt_def test_receipt_db_def test_receipt_def)
  have v: "verified_count test_receipt = 0" by (simp add: test_receipt_def)
  show ?thesis
    using verify_receipt_valid_iff_exists [of test_receipt_db "''RCP-1''" 7]
      verify_receipt_valid_iff_exists [of test_receipt_db "''RCP-2''" 7]
      get_receipt_test a v
    by (simp add: test_receipt_def)
qed

section \<open>Cancellation and rejection\<close>

text \<open>
  Claim C6 as stated: cancel fails on a token whose status is PROCESSING (or CANCELLED or
  REJECTED). It does not: a PROCESSING slip is cancelled.
\<close>

theorem cancel_processing_counterexample:
  "map_option status (get_slip (test_db PROCESSING) ''T-1'') = Some PROCESSING
   \<and> snd (fst (cancel_deposit_slip (test_db PROCESSING) ''T-1'' None ''changed my mind'' 0)) = None
   \<and> map_option status
         (get_slip (snd (cancel_deposit_slip (test_db PROCESSING) ''T-1'' None
                           ''changed my mind'' 0)) ''T-1'') = Some CANCELLED"
  by (simp add: cancel_deposit_slip_def Let_def get_slip_put_slip get_slip_test_db)

text \<open>
  Claim C6, amended. \<open>cancel_deposit_slip\<close> and the reject endpoint refuse exactly the
  statuses COMPLETED and EXPIRED, leaving the session as it was; from every other status
  (INITIATED, RETRIEVED, VERIFIED, PROCESSING, CANCELLED, REJECTED), whatever the clock and
  \<open>expires_at\<close> are, cancel moves the slip to CANCELLED and reject moves it to REJECTED.
\<close>

theorem cancel_reject_allowed_unless_completed_or_expired:
  assumes "get_slip d i = Some s"
  shows "(status s \<in> {COMPLETED, EXPIRED} \<longrightarrow>
            cancel_deposit_slip d i by reason now =
              ((None, Some (''Cannot cancel: current status is ''
                            @ DepositSlipStatus_value (status s))), d)
            \<and> teller_reject_deposit_slip d i reason user now =
              (HTTPException 400 (''Cannot reject: current status is ''
                                  @ DepositSlipStatus_value (status s)), d))
       \<and> (status s \<notin> {COMPLETED, EXPIRED} \<longrightarrow>
            snd (fst (cancel_deposit_slip d i by reason now)) = None
            \<and> map_option status (get_slip (snd (cancel_deposit_slip d i by reason now)) i)
                = Some CANCELLED
            \<and> fst (teller_reject_deposit_slip d i reason user now) = RejectOk i reason
            \<and> map_option status (get_slip (snd (teller_reject_deposit_slip d i reason user now)) i)
                = Some REJECTED)"
  using assms
  by (simp add: cancel_deposit_slip_def teller_reject_deposit_slip_def Let_def
      get_slip_put_slip)

theorem cancel_reject_allowed_unless_completed_or_expired_witness:
  "snd (fst (cancel_deposit_slip (test_db VERIFIED) ''T-1'' None ''r'' 0)) = None
   \<and> fst (teller_reject_deposit_slip (test_db INITIATED) ''T-1'' ''r'' ''U-1'' 0)
       = RejectOk ''T-1'' ''r''
   \<and> cancel_deposit_slip (test_db COMPLETED) ''T-1'' None ''r'' 0 =
       ((None, Some ''Cannot cancel: current status is COMPLETED''), test_db COMPLETED)"
  using cancel_reject_allowed_unless_completed_or_expired
          [OF get_slip_test_db, of VERIFIED None "''r''" 0 "''U-1''"]
        cancel_reject_allowed_unless_completed_or_expired
          [OF get_slip_test_db, of INITIATED None "''r''" 0 "''U-1''"]
        cancel_reject_allowed_unless_completed_or_expired
          [OF get_slip_test_db, of COMPLETED None "''r''" 0 "''U-1''"]
  by simp

section \<open>Guards of verify and complete\<close>

text \<open>
  Claim C4. For an existing slip, \<open>verify_deposit_slip\<close> succeeds (no error message) exactly
  when the status is RETRIEVED, the clock is not past \<open>expires_at\<close>, \<open>amount_confirmed\<close> and
  \<open>depositor_verified\<close> hold, and \<open>instrument_verified\<close> is true if the kind is cheque or
  pay-order; on success the slip is VERIFIED. On an INITIATED slip it fails with the message
  naming that state and writes nothing, and \<open>complete_deposit_slip\<close> fails on every status
  other than VERIFIED, naming it, and writes nothing.
\<close>

theorem verify_and_complete_guards:
  assumes "get_slip d i = Some s"
  shows "(snd (fst (verify_deposit_slip d i teller ac dv iv now)) = None \<longleftrightarrow>
            status s = RETRIEVED \<and> \<not> now > expires_at s \<and> ac \<and> dv
            \<and> (transaction_type s \<in> {CHEQUE_DEPOSIT, PAY_ORDER} \<longrightarrow> iv = Some True))
       \<and> (snd (fst (verify_deposit_slip d i teller ac dv iv now)) = None \<longrightarrow>
            map_option status (get_slip (snd (verify_deposit_slip d i teller ac dv iv now)) i)
              = Some VERIFIED)
       \<and> (status s = INITIATED \<longrightarrow>
            verify_deposit_slip d i teller ac dv iv now =
              ((None, Some ''Cannot verify: current status is INITIATED''), d))
       \<and> (status s \<noteq> VERIFIED \<longrightarrow>
            complete_deposit_slip L ks E now st d i teller auth =
              (Returned (None, None, Some (''Cannot complete: current status is ''
                                           @ DepositSlipStatus_value (status s))), d, st))"
  using assms
  by (auto simp add: verify_deposit_slip_def complete_deposit_slip_def Let_def
      get_slip_put_slip)

theorem verify_and_complete_guards_witness:
  "snd (fst (verify_deposit_slip (test_db RETRIEVED) ''T-1'' ''U-1'' True True None 0)) = None
   \<and> map_option status
         (get_slip (snd (verify_deposit_slip (test_db RETRIEVED) ''T-1'' ''U-1'' True True None 0))
            ''T-1'') = Some VERIFIED
   \<and> verify_deposit_slip (test_db INITIATED) ''T-1'' ''U-1'' True True None 0 =
       ((None, Some ''Cannot verify: current status is INITIATED''), test_db INITIATED)
   \<and> complete_deposit_slip test_lib NoKeys (test_complete_env None) 0 no_keys
         (test_db RETRIEVED) ''T-1'' ''U-1'' True =
       (Returned (None, None, Some ''Cannot complete: current status is RETRIEVED''),
        test_db RETRIEVED, no_keys)"
proof -
  have c: "transaction_type (test_slip\<lparr>status := RETRIEVED\<rparr>) = CASH_DEPOSIT"
    "expires_at (test_slip\<lparr>status := RETRIEVED\<rparr>) = 3600000000"
    by (simp_all add: test_slip_def)
  show ?thesis
    using verify_and_complete_guards
            [OF get_slip_test_db, of RETRIEVED "''U-1''" True True None 0 test_lib NoKeys
               "test_complete_env None" no_keys True]
          verify_and_complete_guards
            [OF get_slip_test_db, of INITIATED "''U-1''" True True None 0 test_lib NoKeys
               "test_complete_env None" no_keys True]
          c
    by simp
qed

section \<open>Validation\<close>

lemma bit_length_le: "n < 2 ^ k \<Longrightarrow> bit_length n \<le> k"
proof (induction n arbitrary: k rule: bit_length.induct)
  case (1 n)
  show ?case
  proof (cases "n = 0")
    case True
    then show ?thesis by (simp add: bit_length.simps)
  next
    case False
    then obtain j where k: "k = Suc j" using "1.prems" by (cases k) auto
    have "n div 2 < 2 ^ j" using "1.prems" k by auto
    from "1.IH" [OF False this] show ?thesis using False k by (simp add: bit_length.simps)
  qed
qed

lemma round_div_bounds:
  assumes "0 < b"
  shows "a div b \<le> round_div a b \<and> round_div a b \<le> a div b + 1
         \<and> (round_div a b = a div b + 1 \<longrightarrow> b \<le> 2 * (a mod b))"
  using assms by (auto simp add: round_div_def Let_def)

text \<open>
  With a scale of at least \<open>2 ^ 19\<close>, one microsecond is more than half a unit of the
  significand, so rounding never reaches the next whole second.
\<close>

lemma round_scaled:
  assumes K: "524288 \<le> K" and d: "0 \<le> d"
  shows "round_div (d * K) 1000000 div K = d div 1000000"
proof -
  define q where "q = d div 1000000"
  define r where "r = d mod 1000000"
  define u where "u = (r * K) div 1000000"
  define m where "m = (r * K) mod 1000000"
  have r: "0 \<le> r" "r \<le> 999999" by (simp_all add: r_def)
  have dqr: "d = q * 1000000 + r" by (simp add: q_def r_def)
  have rK: "r * K = u * 1000000 + m" by (simp add: u_def m_def)
  have m: "0 \<le> m" "m < 1000000" by (simp_all add: m_def)
  have le: "r * K \<le> 999999 * K" using r K by (intro mult_right_mono) auto
  have ge: "0 \<le> r * K" using r K by simp
  have u0: "0 \<le> u" using ge by (simp add: u_def pos_imp_zdiv_nonneg_iff)
  have uK: "u < K" using le rK m K by linarith
  have dK: "d * K = (q * K + u) * 1000000 + m"
    using dqr rK by (simp add: algebra_simps)
  have dv: "(d * K) div 1000000 = q * K + u"
  proof -
    have "(d * K) div 1000000 = ((q * K + u) * 1000000 + m) div 1000000" by (simp only: dK)
    also have "\<dots> = (q * K + u) + m div 1000000" by (rule div_mult_self3) simp
    also have "m div 1000000 = 0" using m by (simp add: div_pos_pos_trivial)
    finally show ?thesis by simp
  qed
  have md: "(d * K) mod 1000000 = m"
  proof -
    have "(d * K) mod 1000000 = ((q * K + u) * 1000000 + m) mod 1000000" by (simp only: dK)
    also have "\<dots> = m mod 1000000" by (rule mod_mult_self3)
    also have "\<dots> = m" using m by (simp add: mod_pos_pos_trivial)
    finally show ?thesis .
  qed
  define R where "R = round_div (d * K) 1000000"
  have Rb: "q * K + u \<le> R" "R \<le> q * K + u + 1" "R = q * K + u + 1 \<longrightarrow> 1000000 \<le> 2 * m"
    using round_div_bounds [of 1000000 "d * K"] dv md by (simp_all add: R_def)
  have up: "R < q * K + K"
  proof (cases "R = q * K + u + 1")
    case True
    then have h: "500000 \<le> m" using Rb(3) by simp
    have "u \<noteq> K - 1"
    proof
      assume "u = K - 1"
      with rK have "r * K = K * 1000000 - 1000000 + m" by (simp add: algebra_simps)
      with le h K show False by linarith
    qed
    then show ?thesis using True uK by simp
  next
    case False
    then show ?thesis using Rb uK by simp
  qed
  have Kpos: "K \<noteq> 0" using K by simp
  have t: "0 \<le> R - q * K" "R - q * K < K" using Rb(1) u0 up by simp_all
  have "R div K = (q * K + (R - q * K)) div K" by simp
  also have "\<dots> = q + (R - q * K) div K" using Kpos by (rule div_mult_self3)
  also have "(R - q * K) div K = 0" using t by (simp add: div_pos_pos_trivial)
  finally have "R div K = q" by simp
  then show ?thesis by (simp add: R_def q_def)
qed

lemma binade_le:
  assumes "0 < d" "d < 17179869184000000"
  shows "binade d \<le> 33"
proof (cases "1000000 \<le> d")
  case True
  have "d div 1000000 < 17179869184" using assms by simp
  then have "nat (d div 1000000) < 2 ^ 34" by simp
  then have "bit_length (nat (d div 1000000)) \<le> 34" by (rule bit_length_le)
  then show ?thesis using True by (simp add: binade_def)
next
  case False
  then show ?thesis by (simp add: binade_def)
qed

text \<open>
  Below \<open>2 ^ 34\<close> seconds (about 544 years) the conversion through the double is exact:
  \<open>int(td.total_seconds())\<close> is the number of whole seconds.
\<close>

lemma total_seconds_int_exact:
  assumes "0 \<le> d" "d < 17179869184000000"
  shows "total_seconds_int d = d div 1000000"
proof (cases "d = 0")
  case True
  then show ?thesis by (simp add: total_seconds_int_def)
next
  case False
  then have pos: "0 < d" using assms by simp
  define k where "k = 52 - binade d"
  have k: "19 \<le> k" using binade_le [OF pos assms(2)] by (simp add: k_def)
  have "(2::int) ^ 19 \<le> 2 ^ nat k" using k by (intro power_increasing) auto
  then have K: "524288 \<le> (2::int) ^ nat k" by simp
  have "float_seconds d = round_div (d * 2 ^ nat k) 1000000 div 2 ^ nat k"
    using k by (simp add: float_seconds_def Let_def k_def)
  also have "\<dots> = d div 1000000" using K assms(1) by (rule round_scaled)
  finally show ?thesis using pos by (simp add: total_seconds_int_def)
qed

lemma round_div_nonneg:
  assumes "0 \<le> a" "0 < b"
  shows "0 \<le> round_div a b"
proof -
  have "0 \<le> a div b" using assms by (simp add: pos_imp_zdiv_nonneg_iff)
  then show ?thesis using round_div_bounds [OF assms(2), of a] by linarith
qed

lemma float_seconds_nonneg:
  assumes "0 < d"
  shows "0 \<le> float_seconds d"
proof (cases "0 \<le> 52 - binade d")
  case True
  have "0 \<le> round_div (d * 2 ^ nat (52 - binade d)) 1000000"
    using assms by (intro round_div_nonneg) auto
  then have "0 \<le> round_div (d * 2 ^ nat (52 - binade d)) 1000000 div 2 ^ nat (52 - binade d)"
    by (simp add: pos_imp_zdiv_nonneg_iff)
  then show ?thesis using True by (simp add: float_seconds_def Let_def)
next
  case False
  have "0 \<le> round_div d (1000000 * 2 ^ nat (- (52 - binade d)))"
    using assms by (intro round_div_nonneg) auto
  then show ?thesis using False by (simp add: float_seconds_def Let_def)
qed

lemma total_seconds_int_neg: "d < 0 \<Longrightarrow> total_seconds_int d \<le> 0"
  using float_seconds_nonneg [of "- d"] by (simp add: total_seconds_int_def)

text \<open>
  At \<open>2 ^ 34\<close> seconds the double nearest to 17179869184.999999 is 17179869185.0: the
  reported number of seconds is one more than the whole seconds that remain.
\<close>

lemma total_seconds_int_rounds_up: "total_seconds_int 17179869184999999 = 17179869185"
  by (simp add: total_seconds_int_def float_seconds_def binade_def round_div_def Let_def
      bit_length.simps)

lemma whole_seconds_remaining:
  assumes "d < 17179869184000000"
  shows "max 0 (total_seconds_int d) = max 0 (d div 1000000)"
proof (cases "0 \<le> d")
  case True
  then show ?thesis using assms by (simp add: total_seconds_int_exact)
next
  case False
  then have n: "d < 0" by simp
  then have "d div 1000000 < 0" by (simp add: neg_imp_zdiv_neg_iff)
  then show ?thesis using total_seconds_int_neg [OF n] by simp
qed

text \<open>
  Claim C5 as stated: any token validated after its \<open>expires_at\<close> reports
  \<open>is_expired = True\<close> with status EXPIRED. A RETRIEVED slip validated one second after its
  \<open>expires_at\<close> is reported valid, not expired, with status RETRIEVED.
\<close>

theorem validate_expired_retrieved_counterexample:
  "map_option expires_at (get_slip (test_db RETRIEVED) ''T-1'') = Some 3600000000
   \<and> \<not> is_expired (fst (validate_drid (test_db RETRIEVED) ''T-1'' 3601000000))
   \<and> is_valid (fst (validate_drid (test_db RETRIEVED) ''T-1'' 3601000000))
   \<and> result_status (fst (validate_drid (test_db RETRIEVED) ''T-1'' 3601000000)) = ''RETRIEVED''"
  by (simp add: validate_drid_def Let_def get_slip_test_db test_slip_def)

text \<open>
  Claim C5, amended. For every existing slip, \<open>validate_drid\<close> reports
  \<open>time_remaining_seconds = max(0, int((expires_at - now).total_seconds()))\<close>, and this is
  \<open>max(0, expires_at - now)\<close> in whole seconds whenever \<open>expires_at - now\<close> is below
  \<open>2 ^ 34\<close> seconds; a slip whose status is INITIATED, validated after its \<open>expires_at\<close>,
  is reported expired and not valid with status EXPIRED, and its stored status becomes
  EXPIRED.
\<close>

theorem validate_time_remaining_and_lazy_expiry:
  assumes "get_slip d i = Some s"
  shows "time_remaining_seconds (fst (validate_drid d i now))
           = Some (max 0 (total_seconds_int (expires_at s - now)))
       \<and> (expires_at s - now < 17179869184000000 \<longrightarrow>
            time_remaining_seconds (fst (validate_drid d i now))
              = Some (max 0 ((expires_at s - now) div 1000000)))
       \<and> (status s = INITIATED \<and> now > expires_at s \<longrightarrow>
            is_expired (fst (validate_drid d i now))
            \<and> \<not> is_valid (fst (validate_drid d i now))
            \<and> result_status (fst (validate_drid d i now)) = ''EXPIRED''
            \<and> map_option status (get_slip (snd (validate_drid d i now)) i) = Some EXPIRED)"
proof -
  have t: "time_remaining_seconds (fst (validate_drid d i now))
             = Some (max 0 (total_seconds_int (expires_at s - now)))"
    using assms total_seconds_int_neg [of "expires_at s - now"]
    by (simp add: validate_drid_def Let_def)
  have e: "status s = INITIATED \<and> now > expires_at s \<longrightarrow>
            is_expired (fst (validate_drid d i now))
            \<and> \<not> is_valid (fst (validate_drid d i now))
            \<and> result_status (fst (validate_drid d i now)) = ''EXPIRED''
            \<and> map_option status (get_slip (snd (validate_drid d i now)) i) = Some EXPIRED"
    using assms by (simp add: validate_drid_def Let_def get_slip_put_slip)
  show ?thesis using t e by (simp add: whole_seconds_remaining)
qed

theorem validate_time_remaining_and_lazy_expiry_witness:
  "time_remaining_seconds (fst (validate_drid (test_db INITIATED) ''T-1'' 3599000000)) = Some 1
   \<and> time_remaining_seconds (fst (validate_drid (test_db INITIATED) ''T-1'' 3601000000)) = Some 0
   \<and> is_expired (fst (validate_drid (test_db INITIATED) ''T-1'' 3601000000))
   \<and> result_status (fst (validate_drid (test_db INITIATED) ''T-1'' 3601000000)) = ''EXPIRED''
   \<and> map_option status
         (get_slip (snd (validate_drid (test_db INITIATED) ''T-1'' 3601000000)) ''T-1'')
       = Some EXPIRED"
proof -
  have c: "status (test_slip\<lparr>status := INITIATED\<rparr>) = INITIATED"
    "expires_at (test_slip\<lparr>status := INITIATED\<rparr>) = 3600000000"
    by (simp_all add: test_slip_def)
  show ?thesis
    using validate_time_remaining_and_lazy_expiry [OF get_slip_test_db, of INITIATED 3599000000]
          validate_time_remaining_and_lazy_expiry [OF get_slip_test_db, of INITIATED 3601000000]
          c
    by (simp add: whole_seconds_remaining)
qed

lemma filter_update_first:
  assumes "\<And>x. p x \<Longrightarrow> p (f x)"
  shows "filter (\<lambda>x. \<not> p x) (update_first p f xs) = filter (\<lambda>x. \<not> p x) xs"
  using assms by (induction xs) auto

lemma other_slips_put_slip:
  assumes "\<And>s. drid (f s) = drid s"
  shows "filter (\<lambda>x. drid x \<noteq> i) (slips (put_slip d i f)) = filter (\<lambda>x. drid x \<noteq> i) (slips d)"
  unfolding put_slip_def using assms filter_update_first [of "\<lambda>s. drid s = i" f "slips d"]
  by simp

lemma tables_put_slip:
  "customers (put_slip d i f) = customers d" "accounts (put_slip d i f) = accounts d"
  "transactions (put_slip d i f) = transactions d" "receipts (put_slip d i f) = receipts d"
  by (simp_all add: put_slip_def)

text \<open>
  Claim C7 as stated: the only write of validate is the lazy expiry, every other stored
  field is unchanged. Validating a fresh, unexpired slip changes two other stored fields:
  \<open>validation_attempts\<close> goes from 0 to 1 and \<open>last_validation_at\<close> is stamped.
\<close>

theorem validate_writes_tracking_counterexample:
  "map_option validation_attempts (get_slip (test_db INITIATED) ''T-1'') = Some 0
   \<and> map_option validation_attempts
         (get_slip (snd (validate_drid (test_db INITIATED) ''T-1'' 0)) ''T-1'') = Some 1
   \<and> map_option last_validation_at (get_slip (test_db INITIATED) ''T-1'') = Some None
   \<and> map_option last_validation_at
         (get_slip (snd (validate_drid (test_db INITIATED) ''T-1'' 0)) ''T-1'') = Some (Some 0)"
  by (simp add: validate_drid_def Let_def get_slip_put_slip get_slip_test_db test_slip_def)

text \<open>
  Claim C7, amended. On an existing slip \<open>validate_drid\<close> writes exactly three fields of
  that row: \<open>validation_attempts\<close> (incremented), \<open>last_validation_at\<close> (the clock) and
  \<open>status\<close> (to EXPIRED, only when it was INITIATED and the clock is past \<open>expires_at\<close>);
  every other field of the row, every other slip and every other table are unchanged; and
  when the call performs no lazy expiry, a second call at the same instant returns the
  same result.
\<close>

theorem validate_frame:
  assumes "get_slip d i = Some s"
  shows "get_slip (snd (validate_drid d i now)) i =
           Some (s\<lparr>status := (if status s = INITIATED \<and> now > expires_at s then EXPIRED
                              else status s),
                   validation_attempts := validation_attempts s + 1,
                   last_validation_at := Some now\<rparr>)
       \<and> filter (\<lambda>x. drid x \<noteq> i) (slips (snd (validate_drid d i now)))
           = filter (\<lambda>x. drid x \<noteq> i) (slips d)
       \<and> customers (snd (validate_drid d i now)) = customers d
       \<and> accounts (snd (validate_drid d i now)) = accounts d
       \<and> transactions (snd (validate_drid d i now)) = transactions d
       \<and> receipts (snd (validate_drid d i now)) = receipts d
       \<and> (\<not> (status s = INITIATED \<and> now > expires_at s) \<longrightarrow>
            fst (validate_drid (snd (validate_drid d i now)) i now) = fst (validate_drid d i now))"
proof -
  let ?track = "\<lambda>s. s\<lparr>validation_attempts := validation_attempts s + 1,
                       last_validation_at := Some now\<rparr>"
  let ?d1 = "put_slip d i ?track"
  have g1: "get_slip ?d1 i = Some (?track s)"
    using assms by (simp add: get_slip_put_slip)
  show ?thesis
  proof (cases "status s = INITIATED \<and> now > expires_at s")
    case True
    then have v: "snd (validate_drid d i now) = put_slip ?d1 i (\<lambda>s. s\<lparr>status := EXPIRED\<rparr>)"
      using assms by (simp add: validate_drid_def Let_def)
    have g2: "get_slip (put_slip ?d1 i (\<lambda>s. s\<lparr>status := EXPIRED\<rparr>)) i
                = map_option (\<lambda>s. s\<lparr>status := EXPIRED\<rparr>) (get_slip ?d1 i)"
      by (rule get_slip_put_slip) simp
    show ?thesis
      unfolding v g2 g1 using True
      by (simp add: other_slips_put_slip tables_put_slip)
  next
    case False
    then have v: "snd (validate_drid d i now) = ?d1"
      using assms by (auto simp add: validate_drid_def Let_def)
    have same: "fst (validate_drid ?d1 i now) = fst (validate_drid d i now)"
      using False assms g1 by (auto simp add: validate_drid_def Let_def)
    show ?thesis
      unfolding v using False g1 same
      by (auto simp add: other_slips_put_slip tables_put_slip)
  qed
qed

theorem validate_frame_witness:
  "map_option amount (get_slip (snd (validate_drid (test_db VERIFIED) ''T-1'' 5)) ''T-1'')
     = Some 5000000
   \<and> map_option status (get_slip (snd (validate_drid (test_db VERIFIED) ''T-1'' 5)) ''T-1'')
     = Some VERIFIED
   \<and> fst (validate_drid (snd (validate_drid (test_db VERIFIED) ''T-1'' 5)) ''T-1'' 5)
     = fst (validate_drid (test_db VERIFIED) ''T-1'' 5)"
proof -
  have c: "status (test_slip\<lparr>status := VERIFIED\<rparr>) = VERIFIED"
    "amount (test_slip\<lparr>status := VERIFIED\<rparr>) = 5000000"
    by (simp_all add: test_slip_def)
  show ?thesis
    using validate_frame [OF get_slip_test_db, of VERIFIED 5] c by simp
qed

text \<open>
  Not part of a claim: once the stored status is EXPIRED, no branch of \<open>validate_drid\<close>
  matches it and the slip is reported valid and not expired.
\<close>

lemma validate_on_expired_status:
  assumes "get_slip d i = Some s" "status s = EXPIRED"
  shows "is_valid (fst (validate_drid d i now)) \<and> \<not> is_expired (fst (validate_drid d i now))"
  using assms by (simp add: validate_drid_def Let_def)

section \<open>Issuance\<close>

lemma active_slip_Some:
  assumes "active_slip d c a now = Some e"
  shows "e \<in> set (slips d) \<and> customer_cnic e = c \<and> customer_account e = a
         \<and> status e \<in> {INITIATED, RETRIEVED, VERIFIED} \<and> expires_at e > now"
  using assms unfolding active_slip_def find_Some_iff by auto

lemma active_slip_None:
  "active_slip d c a now = None \<longleftrightarrow>
     (\<forall>s \<in> set (slips d). \<not> (customer_cnic s = c \<and> customer_account s = a
          \<and> status s \<in> {INITIATED, RETRIEVED, VERIFIED} \<and> expires_at s > now))"
  unfolding active_slip_def find_None_iff by auto

lemma test_directory:
  "find (\<lambda>c. cnic c = rq_customer_cnic test_request) (customers (test_db st)) = Some test_customer"
  "find (\<lambda>a. account_number a = rq_customer_account test_request) (accounts (test_db st))
     = Some test_account"
  "a_customer_id test_account = c_id test_customer"
  by (simp_all add: test_db_def test_request_def test_customer_def test_account_def)

text \<open>
  Claim C3 as stated: while an existing token for the account is INITIATED, RETRIEVED or
  VERIFIED, a second issuance returns the already-active outcome. A RETRIEVED slip one
  second past its \<open>expires_at\<close> is still RETRIEVED, yet a second slip is issued for the
  same account.
\<close>

theorem issue_over_expired_retrieved_counterexample:
  "map_option status (get_slip (test_db RETRIEVED) ''T-1'') = Some RETRIEVED
   \<and> map_option customer_account (get_slip (test_db RETRIEVED) ''T-1'')
       = Some (rq_customer_account test_request)
   \<and> (case fst (create_deposit_slip test_create_env 3601000000 (test_db RETRIEVED) test_request) of
         Returns (Some s, None) \<Rightarrow> drid s = ''DRID-20240101-ABC123'' \<and> status s = INITIATED
       | _ \<Rightarrow> False)"
  by (simp add: create_deposit_slip_def Let_def get_slip_test_db test_db_def test_slip_def
      test_request_def test_create_env_def test_customer_def test_account_def active_slip_def
      generate_drid_def DRID_PREFIX_def get_slip_def TransactionType_of_def Channel_of_def
      DEFAULT_VALIDITY_MINUTES_def py_or_def)

text \<open>
  Claim C3, amended. For a customer and an account of that customer: while some slip of
  this customer and account is INITIATED, RETRIEVED or VERIFIED and its \<open>expires_at\<close> is
  still ahead of the clock, \<open>create_deposit_slip\<close> returns the error
  \<open>EXISTING_SLIP:<drid>\<close> of such a slip and writes nothing; when every slip of this
  customer and account is in another status or at or past its \<open>expires_at\<close>, and the
  uniqueness loop yields an id and the type and channel names are enum members, a new
  INITIATED slip is returned and stored.
\<close>

theorem issue_already_active_or_succeeds:
  assumes cust: "find (\<lambda>c. cnic c = rq_customer_cnic rq) (customers d) = Some c"
      and acct: "find (\<lambda>a. account_number a = rq_customer_account rq) (accounts d) = Some a"
      and owner: "a_customer_id a = c_id c"
  shows "((\<exists>s \<in> set (slips d). customer_cnic s = rq_customer_cnic rq
              \<and> customer_account s = rq_customer_account rq
              \<and> status s \<in> {INITIATED, RETRIEVED, VERIFIED} \<and> expires_at s > now) \<longrightarrow>
          (\<exists>e \<in> set (slips d). customer_cnic e = rq_customer_cnic rq
              \<and> customer_account e = rq_customer_account rq
              \<and> status e \<in> {INITIATED, RETRIEVED, VERIFIED} \<and> expires_at e > now
              \<and> create_deposit_slip E now d rq =
                  (Returns (None, Some (''EXISTING_SLIP:'' @ drid e)), d)))
       \<and> ((\<forall>s \<in> set (slips d). customer_cnic s = rq_customer_cnic rq
              \<and> customer_account s = rq_customer_account rq \<longrightarrow>
                status s \<in> {PROCESSING, COMPLETED, EXPIRED, CANCELLED, REJECTED}
                \<or> expires_at s \<le> now)
           \<and> unique_drid d (drid_date_part E) (drid_unique_parts E) = Some new_drid
           \<and> TransactionType_of (rq_transaction_type rq) = Some ty
           \<and> Channel_of (rq_channel rq) = Some ch \<longrightarrow>
          (case fst (create_deposit_slip E now d rq) of
             Returns (Some slip, None) \<Rightarrow>
               drid slip = new_drid \<and> status slip = INITIATED
               \<and> customer_account slip = rq_customer_account rq
               \<and> snd (create_deposit_slip E now d rq) = d\<lparr>slips := slips d @ [slip]\<rparr>
           | _ \<Rightarrow> False))"
proof (intro conjI impI)
  assume "\<exists>s \<in> set (slips d). customer_cnic s = rq_customer_cnic rq
              \<and> customer_account s = rq_customer_account rq
              \<and> status s \<in> {INITIATED, RETRIEVED, VERIFIED} \<and> expires_at s > now"
  then have "active_slip d (rq_customer_cnic rq) (rq_customer_account rq) now \<noteq> None"
    unfolding active_slip_None by blast
  then obtain e where e: "active_slip d (rq_customer_cnic rq) (rq_customer_account rq) now = Some e"
    by blast
  have "create_deposit_slip E now d rq = (Returns (None, Some (''EXISTING_SLIP:'' @ drid e)), d)"
    using cust acct owner e by (simp add: create_deposit_slip_def Let_def)
  with active_slip_Some [OF e]
  show "\<exists>e \<in> set (slips d). customer_cnic e = rq_customer_cnic rq
              \<and> customer_account e = rq_customer_account rq
              \<and> status e \<in> {INITIATED, RETRIEVED, VERIFIED} \<and> expires_at e > now
              \<and> create_deposit_slip E now d rq =
                  (Returns (None, Some (''EXISTING_SLIP:'' @ drid e)), d)"
    by blast
next
  assume h: "(\<forall>s \<in> set (slips d). customer_cnic s = rq_customer_cnic rq
              \<and> customer_account s = rq_customer_account rq \<longrightarrow>
                status s \<in> {PROCESSING, COMPLETED, EXPIRED, CANCELLED, REJECTED}
                \<or> expires_at s \<le> now)
           \<and> unique_drid d (drid_date_part E) (drid_unique_parts E) = Some new_drid
           \<and> TransactionType_of (rq_transaction_type rq) = Some ty
           \<and> Channel_of (rq_channel rq) = Some ch"
  then have n: "active_slip d (rq_customer_cnic rq) (rq_customer_account rq) now = None"
    unfolding active_slip_None by fastforce
  show "case fst (create_deposit_slip E now d rq) of
             Returns (Some slip, None) \<Rightarrow>
               drid slip = new_drid \<and> status slip = INITIATED
               \<and> customer_account slip = rq_customer_account rq
               \<and> snd (create_deposit_slip E now d rq) = d\<lparr>slips := slips d @ [slip]\<rparr>
           | _ \<Rightarrow> False"
    using cust acct owner n h by (simp add: create_deposit_slip_def Let_def)
qed

theorem issue_already_active_or_succeeds_witness:
  "create_deposit_slip test_create_env 0 (test_db INITIATED) test_request =
     (Returns (None, Some ''EXISTING_SLIP:T-1''), test_db INITIATED)
   \<and> (case fst (create_deposit_slip test_create_env 0 (test_db CANCELLED) test_request) of
         Returns (Some s, None) \<Rightarrow> drid s = ''DRID-20240101-ABC123'' \<and> status s = INITIATED
       | _ \<Rightarrow> False)"
proof -
  have u: "unique_drid (test_db CANCELLED) (drid_date_part test_create_env)
             (drid_unique_parts test_create_env) = Some ''DRID-20240101-ABC123''"
    by (simp add: test_create_env_def generate_drid_def DRID_PREFIX_def get_slip_def
        test_db_def test_slip_def)
  have t: "TransactionType_of (rq_transaction_type test_request) = Some CASH_DEPOSIT"
    "Channel_of (rq_channel test_request) = Some WEB"
    by (simp_all add: test_request_def TransactionType_of_def Channel_of_def)
  have a: "create_deposit_slip test_create_env 0 (test_db INITIATED) test_request =
     (Returns (None, Some ''EXISTING_SLIP:T-1''), test_db INITIATED)"
    using issue_already_active_or_succeeds [OF test_directory, of INITIATED 0 test_create_env]
    by (simp add: test_db_def test_slip_def test_request_def)
  have b: "case fst (create_deposit_slip test_create_env 0 (test_db CANCELLED) test_request) of
         Returns (Some s, None) \<Rightarrow> drid s = ''DRID-20240101-ABC123'' \<and> status s = INITIATED
       | _ \<Rightarrow> False"
    using issue_already_active_or_succeeds
            [OF test_directory, of CANCELLED 0 test_create_env "''DRID-20240101-ABC123''"
               CASH_DEPOSIT WEB] u t
    by (auto simp add: test_db_def test_slip_def test_request_def
        split: create_outcome.splits option.splits prod.splits)
  show ?thesis using a b by simp
qed

section \<open>Completion\<close>

lemma sign_receipt_unavailable:
  assumes "key_unavailable ks st"
  shows "sign_receipt L ks st rd ts = ((None, None, None), snd (ensure_initialized ks st))"
  using assms
  by (auto simp add: key_unavailable_def sign_receipt_def Let_def
      split: prod.splits bool.splits option.splits)

lemma get_slip_other_tables:
  "get_slip (d\<lparr>transactions := ts\<rparr>) i = get_slip d i"
  "get_slip (d\<lparr>receipts := rs\<rparr>) i = get_slip d i"
  by (simp_all add: get_slip_def)

lemma ReceiptType_of_DIGITAL: "ReceiptType_of ''DIGITAL'' = Some DIGITAL"
  by (simp add: ReceiptType_of_def)

lemma create_receipt_error:
  assumes "receipt_error E = Some f"
  shows "create_receipt L ks E now st d t ''DIGITAL'' =
           (Inl f, d,
            snd (sign_receipt L ks st
                   (receipt_data_of L
                      (generate_receipt_number (rn_date_part E) (rn_unique_part E)) t)
                   (sign_timestamp_iso E)))"
  using assms
  by (simp add: create_receipt_def Let_def ReceiptType_of_DIGITAL split: prod.splits)

lemma create_receipt_unsigned:
  assumes "receipt_error E = None" "key_unavailable ks st"
  shows "create_receipt L ks E now st d t ''DIGITAL'' =
           (Inr \<lparr>r_id = new_receipt_id E, r_transaction_id = t_id t,
                 receipt_number = generate_receipt_number (rn_date_part E) (rn_unique_part E),
                 receipt_type = DIGITAL, verification_qr_data = Some (qr_code_base64 E),
                 verification_url = Some (qr_url E), is_verified = False, verified_count = 0,
                 last_verified_at = None, digital_signature = None, signature_hash = None,
                 signature_timestamp = None, signature_algorithm = Some ''RSA-SHA256'',
                 is_signature_valid = False, r_created_at = now\<rparr>,
            d\<lparr>receipts := receipts d @
                 [\<lparr>r_id = new_receipt_id E, r_transaction_id = t_id t,
                   receipt_number = generate_receipt_number (rn_date_part E) (rn_unique_part E),
                   receipt_type = DIGITAL, verification_qr_data = Some (qr_code_base64 E),
                   verification_url = Some (qr_url E), is_verified = False, verified_count = 0,
                   last_verified_at = None, digital_signature = None, signature_hash = None,
                   signature_timestamp = None, signature_algorithm = Some ''RSA-SHA256'',
                   is_signature_valid = False, r_created_at = now\<rparr>]\<rparr>,
            snd (ensure_initialized ks st))"
  using assms
  by (simp add: sign_receipt_unavailable create_receipt_def Let_def ReceiptType_of_DIGITAL)

lemma verified_slip_restored:
  assumes "status s = VERIFIED"
  shows "s\<lparr>status := VERIFIED\<rparr> = s"
  using assms [symmetric] by simp

lemma no_keys_unavailable: "key_unavailable NoKeys no_keys"
  by (simp add: key_unavailable_def ensure_initialized_def initialize_def no_keys_def)

text \<open>
  What \<open>complete_deposit_slip\<close> leaves behind when the receipt cannot be created after the
  transaction was committed, for a VERIFIED, unexpired slip and a captured authorization.
  After a failure that leaves the session usable, the message is returned and the slip is
  stored as before the call; after a failed commit of the receipt, PendingRollbackError
  escapes and the slip stays PROCESSING. In both cases no receipt is stored and the
  transaction committed before the failure remains in the table.
\<close>

lemma complete_after_receipt_failure:
  assumes slip: "get_slip d i = Some s"
      and verified: "status s = VERIFIED"
      and live: "\<not> now > expires_at s"
      and txn: "transaction_error E = None"
  shows "(receipt_error (receipt_environment E) = Some (PythonError e) \<longrightarrow>
            fst (complete_deposit_slip L ks E now st d i teller True)
              = Returned (None, None, Some (''Error creating transaction: '' @ e))
            \<and> get_slip (fst (snd (complete_deposit_slip L ks E now st d i teller True))) i
                = Some s)
       \<and> (receipt_error (receipt_environment E) = Some (CommitError e) \<longrightarrow>
            fst (complete_deposit_slip L ks E now st d i teller True)
              = Raised ''PendingRollbackError''
            \<and> get_slip (fst (snd (complete_deposit_slip L ks E now st d i teller True))) i
                = Some (s\<lparr>status := PROCESSING\<rparr>))
       \<and> (receipt_error (receipt_environment E) \<noteq> None \<longrightarrow>
            receipts (fst (snd (complete_deposit_slip L ks E now st d i teller True)))
              = receipts d
            \<and> (\<exists>t. transactions (fst (snd (complete_deposit_slip L ks E now st d i teller True)))
                       = transactions d @ [t]
                     \<and> t_id t = new_transaction_id E \<and> t_amount t = amount s
                     \<and> t_customer_account t = customer_account s
                     \<and> t_status t = TXN_COMPLETED))"
proof -
  let ?d1 = "put_slip d i (\<lambda>s. s\<lparr>status := PROCESSING\<rparr>)"
  have restore: "\<And>d'. get_slip d' i = Some (s\<lparr>status := PROCESSING\<rparr>) \<Longrightarrow>
                get_slip (put_slip d' i (\<lambda>s. s\<lparr>status := VERIFIED\<rparr>)) i = Some s"
    using verified by (simp add: get_slip_put_slip verified_slip_restored)
  have g1: "get_slip ?d1 i = Some (s\<lparr>status := PROCESSING\<rparr>)"
    using slip by (simp add: get_slip_put_slip)
  show ?thesis
    using slip verified live txn g1 restore
    by (auto simp add: complete_deposit_slip_def Let_def create_receipt_error tables_put_slip
        get_slip_other_tables split: failure.splits)
qed

text \<open>
  Claim C2: when creating or persisting the receipt fails after the transaction was
  written, the token is rolled back to VERIFIED, the error is surfaced and no transaction
  or receipt remains visible. The handler of \<open>complete_deposit_slip\<close> ("Rollback on error")
  only resets the status and commits; it never rolls the session back. For the VERIFIED
  slip \<open>T-1\<close> and an empty transaction table: when the commit of the receipt fails
  ("duplicate key"), PendingRollbackError escapes the call, the slip stays PROCESSING and
  the transaction \<open>TXN-20240101-1111BBBB\<close> is stored without a receipt; when an exception
  is raised between the two writes ("injected"), the message is returned and the slip is
  VERIFIED again, and the transaction is stored without a receipt all the same.
\<close>

theorem completion_failure_not_atomic:
  "transactions (test_db VERIFIED) = []
   \<and> fst (complete_deposit_slip test_lib NoKeys
            (test_complete_env (Some (CommitError ''duplicate key''))) 0 no_keys
            (test_db VERIFIED) ''T-1'' ''U-1'' True)
       = Raised ''PendingRollbackError''
   \<and> map_option status
         (get_slip (fst (snd (complete_deposit_slip test_lib NoKeys
                                (test_complete_env (Some (CommitError ''duplicate key''))) 0
                                no_keys (test_db VERIFIED) ''T-1'' ''U-1'' True))) ''T-1'')
       = Some PROCESSING
   \<and> map t_reference_number
         (transactions (fst (snd (complete_deposit_slip test_lib NoKeys
                                    (test_complete_env (Some (CommitError ''duplicate key''))) 0
                                    no_keys (test_db VERIFIED) ''T-1'' ''U-1'' True))))
       = [''TXN-20240101-1111BBBB'']
   \<and> receipts (fst (snd (complete_deposit_slip test_lib NoKeys
                           (test_complete_env (Some (CommitError ''duplicate key''))) 0
                           no_keys (test_db VERIFIED) ''T-1'' ''U-1'' True))) = []
   \<and> fst (complete_deposit_slip test_lib NoKeys
            (test_complete_env (Some (PythonError ''injected''))) 0 no_keys
            (test_db VERIFIED) ''T-1'' ''U-1'' True)
       = Returned (None, None, Some ''Error creating transaction: injected'')
   \<and> map_option status
         (get_slip (fst (snd (complete_deposit_slip test_lib NoKeys
                                (test_complete_env (Some (PythonError ''injected''))) 0
                                no_keys (test_db VERIFIED) ''T-1'' ''U-1'' True))) ''T-1'')
       = Some VERIFIED
   \<and> map t_reference_number
         (transactions (fst (snd (complete_deposit_slip test_lib NoKeys
                                    (test_complete_env (Some (PythonError ''injected''))) 0
                                    no_keys (test_db VERIFIED) ''T-1'' ''U-1'' True))))
       = [''TXN-20240101-1111BBBB'']
   \<and> receipts (fst (snd (complete_deposit_slip test_lib NoKeys
                           (test_complete_env (Some (PythonError ''injected''))) 0
                           no_keys (test_db VERIFIED) ''T-1'' ''U-1'' True))) = []"
proof -
  have e: "receipt_error (receipt_environment (test_complete_env f)) = f"
    "transaction_error (test_complete_env f) = None"
    "txn_date_part (test_complete_env f) = ''20240101''"
    "txn_unique_part (test_complete_env f) = ''1111BBBB''" for f
    by (simp_all add: test_complete_env_def test_receipt_env_def)
  have s: "status (test_slip\<lparr>status := VERIFIED\<rparr>) = VERIFIED"
    "expires_at (test_slip\<lparr>status := VERIFIED\<rparr>) = 3600000000"
    by (simp_all add: test_slip_def)
  have t: "transactions (test_db VERIFIED) = []" "receipts (test_db VERIFIED) = []"
    by (simp_all add: test_db_def)
  show ?thesis
    using e s t
    by (simp add: complete_deposit_slip_def Let_def get_slip_test_db create_receipt_error
        get_slip_put_slip get_slip_other_tables tables_put_slip)
qed

text \<open>
  Claim C9. When the key material is unavailable, \<open>sign_receipt\<close> returns the triple of
  \<open>None\<close> instead of raising, and completing a VERIFIED, unexpired slip still succeeds:
  the slip is COMPLETED and linked to the new transaction, the transaction and one
  receipt are stored, and that receipt carries no signature and no hash and has
  \<open>is_signature_valid = False\<close>.
\<close>

theorem unsigned_completion:
  assumes "key_unavailable ks st"
  shows "sign_receipt L ks st rd ts = ((None, None, None), snd (ensure_initialized ks st))
       \<and> (get_slip d i = Some s \<and> status s = VERIFIED \<and> \<not> now > expires_at s
            \<and> transaction_error E = None \<and> receipt_error (receipt_environment E) = None \<longrightarrow>
          (\<exists>t r. fst (complete_deposit_slip L ks E now st d i teller True)
                    = Returned (Some (s\<lparr>status := COMPLETED, completed_at := Some now,
                              completed_by := Some teller,
                              transaction_id := Some (t_id t)\<rparr>), Some t, None)
                \<and> get_slip (fst (snd (complete_deposit_slip L ks E now st d i teller True))) i
                    = Some (s\<lparr>status := COMPLETED, completed_at := Some now,
                              completed_by := Some teller,
                              transaction_id := Some (t_id t)\<rparr>)
                \<and> transactions (fst (snd (complete_deposit_slip L ks E now st d i teller True)))
                    = transactions d @ [t]
                \<and> receipts (fst (snd (complete_deposit_slip L ks E now st d i teller True)))
                    = receipts d @ [r]
                \<and> t_amount t = amount s \<and> t_status t = TXN_COMPLETED
                \<and> r_transaction_id r = t_id t
                \<and> digital_signature r = None \<and> signature_hash r = None
                \<and> \<not> is_signature_valid r))"
proof (intro conjI impI)
  show "sign_receipt L ks st rd ts = ((None, None, None), snd (ensure_initialized ks st))"
    using assms by (rule sign_receipt_unavailable)
next
  assume h: "get_slip d i = Some s \<and> status s = VERIFIED \<and> \<not> now > expires_at s
            \<and> transaction_error E = None \<and> receipt_error (receipt_environment E) = None"
  let ?d1 = "put_slip d i (\<lambda>s. s\<lparr>status := PROCESSING\<rparr>)"
  have g1: "get_slip ?d1 i = Some (s\<lparr>status := PROCESSING\<rparr>)"
    using h by (simp add: get_slip_put_slip)
  have fin: "\<And>d' f. get_slip d' i = Some (s\<lparr>status := PROCESSING\<rparr>) \<Longrightarrow>
                (\<And>x. drid (f x) = drid x) \<Longrightarrow>
                get_slip (put_slip d' i f) i = Some (f (s\<lparr>status := PROCESSING\<rparr>))"
    by (simp add: get_slip_put_slip)
  show "\<exists>t r. fst (complete_deposit_slip L ks E now st d i teller True)
                    = Returned (Some (s\<lparr>status := COMPLETED, completed_at := Some now,
                              completed_by := Some teller,
                              transaction_id := Some (t_id t)\<rparr>), Some t, None)
                \<and> get_slip (fst (snd (complete_deposit_slip L ks E now st d i teller True))) i
                    = Some (s\<lparr>status := COMPLETED, completed_at := Some now,
                              completed_by := Some teller,
                              transaction_id := Some (t_id t)\<rparr>)
                \<and> transactions (fst (snd (complete_deposit_slip L ks E now st d i teller True)))
                    = transactions d @ [t]
                \<and> receipts (fst (snd (complete_deposit_slip L ks E now st d i teller True)))
                    = receipts d @ [r]
                \<and> t_amount t = amount s \<and> t_status t = TXN_COMPLETED
                \<and> r_transaction_id r = t_id t
                \<and> digital_signature r = None \<and> signature_hash r = None
                \<and> \<not> is_signature_valid r"
    using h assms g1
    by (simp add: complete_deposit_slip_def Let_def create_receipt_unsigned tables_put_slip
        get_slip_other_tables fin)
qed

theorem unsigned_completion_witness:
  "key_unavailable NoKeys no_keys
   \<and> fst (sign_receipt test_lib NoKeys no_keys test_receipt_data ''TZ'') = (None, None, None)
   \<and> map_option status
         (get_slip (fst (snd (complete_deposit_slip test_lib NoKeys (test_complete_env None) 0
                                no_keys (test_db VERIFIED) ''T-1'' ''U-1'' True))) ''T-1'')
       = Some COMPLETED
   \<and> map t_amount
         (transactions (fst (snd (complete_deposit_slip test_lib NoKeys (test_complete_env None) 0
                                    no_keys (test_db VERIFIED) ''T-1'' ''U-1'' True))))
       = [5000000]
   \<and> map digital_signature
         (receipts (fst (snd (complete_deposit_slip test_lib NoKeys (test_complete_env None) 0
                                no_keys (test_db VERIFIED) ''T-1'' ''U-1'' True))))
       = [None]
   \<and> map is_signature_valid
         (receipts (fst (snd (complete_deposit_slip test_lib NoKeys (test_complete_env None) 0
                                no_keys (test_db VERIFIED) ''T-1'' ''U-1'' True))))
       = [False]"
proof -
  have e: "receipt_error (receipt_environment (test_complete_env None)) = None"
    "transaction_error (test_complete_env None) = None"
    by (simp_all add: test_complete_env_def test_receipt_env_def)
  have s: "status (test_slip\<lparr>status := VERIFIED\<rparr>) = VERIFIED"
    "\<not> 0 > expires_at (test_slip\<lparr>status := VERIFIED\<rparr>)"
    "amount (test_slip\<lparr>status := VERIFIED\<rparr>) = 5000000"
    by (simp_all add: test_slip_def)
  have r: "receipts (test_db VERIFIED) = []" "transactions (test_db VERIFIED) = []"
    by (simp_all add: test_db_def)
  show ?thesis
    using unsigned_completion
            [OF no_keys_unavailable,
             where L = test_lib and rd = test_receipt_data and ts = "''TZ''"
               and d = "test_db VERIFIED" and i = "''T-1''"
               and s = "test_slip\<lparr>status := VERIFIED\<rparr>" and now = 0
               and E = "test_complete_env None" and teller = "''U-1''"]
          get_slip_test_db [of VERIFIED] e s r no_keys_unavailable
    by auto
qed

section \<open>Signatures\<close>

lemma payload_ignores_signing_timestamp:
  "create_signing_payload (d(''signing_timestamp'' \<mapsto> t)) = create_signing_payload d"
  by (simp add: create_signing_payload_def dict_get_def)

lemma payload_field_change:
  assumes "k \<in> set signed_keys" "d k = Some v" "v' \<noteq> v"
  shows "create_signing_payload (d(k \<mapsto> v')) \<noteq> create_signing_payload d"
proof -
  from assms(1) consider
      "k = ''receipt_number''" | "k = ''reference_number''" | "k = ''amount''"
    | "k = ''currency''" | "k = ''customer_name''" | "k = ''customer_account''"
    | "k = ''transaction_type''" | "k = ''transaction_date''" | "k = ''branch_id''"
    | "k = ''processed_by''"
    unfolding signed_keys_def by fastforce
  then show ?thesis
  proof cases
    case 1 with assms(2,3) show ?thesis by (simp add: create_signing_payload_def dict_get_def)
  next
    case 2 with assms(2,3) show ?thesis by (simp add: create_signing_payload_def dict_get_def)
  next
    case 3 with assms(2,3) show ?thesis by (simp add: create_signing_payload_def dict_get_def)
  next
    case 4 with assms(2,3) show ?thesis by (simp add: create_signing_payload_def dict_get_def)
  next
    case 5 with assms(2,3) show ?thesis by (simp add: create_signing_payload_def dict_get_def)
  next
    case 6 with assms(2,3) show ?thesis by (simp add: create_signing_payload_def dict_get_def)
  next
    case 7 with assms(2,3) show ?thesis by (simp add: create_signing_payload_def dict_get_def)
  next
    case 8 with assms(2,3) show ?thesis by (simp add: create_signing_payload_def dict_get_def)
  next
    case 9 with assms(2,3) show ?thesis by (simp add: create_signing_payload_def dict_get_def)
  next
    case 10 with assms(2,3) show ?thesis by (simp add: create_signing_payload_def dict_get_def)
  qed
qed

lemma ensure_initialized_True:
  assumes "ensure_initialized ks st = (True, st')"
  shows "initialized st' \<and> ensure_initialized ks st' = (True, st')"
  using assms
  by (auto simp add: ensure_initialized_def initialize_def split: if_splits key_source.splits)

lemma sign_receipt_Some:
  assumes "sign_receipt L ks st d ts = ((Some sig, h, t), st')"
  shows "\<exists>sk s0. ensure_initialized ks st = (True, st') \<and> private_key st' = Some sk
           \<and> rsa_sign L sk (create_signing_payload d) = Some s0 \<and> sig = b64encode L s0
           \<and> t = Some ts"
  using assms
  by (auto simp add: sign_receipt_def Let_def payload_ignores_signing_timestamp
      split: prod.splits bool.splits option.splits)

lemma verify_signature_initialized:
  assumes "initialized st" "public_key st = Some pk" "b64decode L sig = Inr s0"
  shows "verify_signature L ks st d sig ts =
           ((case rsa_verify L pk s0 (create_signing_payload d) of
               VerifyOk \<Rightarrow> (True, ''Signature verified successfully - Receipt is authentic'')
             | InvalidSignature \<Rightarrow>
                 (False, ''INVALID SIGNATURE - Receipt may have been tampered with'')
             | VerifyError e \<Rightarrow> (False, ''Verification error: '' @ e)), st)"
  using assms
  by (simp add: verify_signature_def ensure_initialized_def Let_def
      payload_ignores_signing_timestamp split: verify_outcome.splits)

lemma test_lib_ideal:
  "\<forall>p s. rsa_verify test_lib ''k'' s p =
     (if rsa_sign test_lib ''k'' p = Some s then VerifyOk else InvalidSignature)"
  "\<forall>p p' s. rsa_sign test_lib ''k'' p = Some s \<and> rsa_sign test_lib ''k'' p' = Some s
     \<longrightarrow> p = p'"
  "\<forall>s. b64decode test_lib (b64encode test_lib s) = Inr s"
  by (auto simp add: test_lib_def)

lemma test_sign:
  "sign_receipt test_lib NoKeys test_keys test_receipt_data ''TZ'' =
     ((Some (''k'' @ create_signing_payload test_receipt_data),
       Some (create_signing_payload test_receipt_data), Some ''TZ''), test_keys)"
  by (simp add: sign_receipt_def ensure_initialized_def Let_def test_lib_def test_keys_def
      payload_ignores_signing_timestamp)

text \<open>
  Claim C1: the canonical payload ends with the signing timestamp, so that a changed
  signing timestamp makes verification report invalid. \<open>sign_receipt\<close> and
  \<open>verify_signature\<close> both store the timestamp in the dictionary under
  \<open>signing_timestamp\<close>, but \<open>create_signing_payload\<close> never reads that key: the payload,
  the signature and the verdict of \<open>verify_signature\<close> are the same for every timestamp.
  In particular a receipt signed at 2024-01-01T00:00:00Z verifies as authentic when the
  timestamp 2030-12-31T23:59:59Z is supplied.
\<close>

theorem signing_timestamp_not_bound:
  "create_signing_payload (d(''signing_timestamp'' \<mapsto> ts)) = create_signing_payload d
   \<and> fst (fst (sign_receipt L ks st d ts)) = fst (fst (sign_receipt L ks st d ts'))
   \<and> verify_signature L ks st d sig ts = verify_signature L ks st d sig ts'
   \<and> (case sign_receipt test_lib NoKeys test_keys test_receipt_data ''2024-01-01T00:00:00Z'' of
         ((Some sg, h, Some t), st') \<Rightarrow>
           t = ''2024-01-01T00:00:00Z''
           \<and> fst (verify_signature test_lib NoKeys st' test_receipt_data sg ''2030-12-31T23:59:59Z'')
               = (True, ''Signature verified successfully - Receipt is authentic'')
       | _ \<Rightarrow> False)"
proof (intro conjI)
  show "create_signing_payload (d(''signing_timestamp'' \<mapsto> ts)) = create_signing_payload d"
    by (rule payload_ignores_signing_timestamp)
  show "fst (fst (sign_receipt L ks st d ts)) = fst (fst (sign_receipt L ks st d ts'))"
    by (simp add: sign_receipt_def Let_def payload_ignores_signing_timestamp
        split: prod.splits bool.splits option.splits)
  show "verify_signature L ks st d sig ts = verify_signature L ks st d sig ts'"
    unfolding verify_signature_def Let_def payload_ignores_signing_timestamp by (rule refl)
  show "case sign_receipt test_lib NoKeys test_keys test_receipt_data ''2024-01-01T00:00:00Z'' of
         ((Some sg, h, Some t), st') \<Rightarrow>
           t = ''2024-01-01T00:00:00Z''
           \<and> fst (verify_signature test_lib NoKeys st' test_receipt_data sg ''2030-12-31T23:59:59Z'')
               = (True, ''Signature verified successfully - Receipt is authentic'')
       | _ \<Rightarrow> False"
    by (simp add: sign_receipt_def verify_signature_def Let_def ensure_initialized_def
        payload_ignores_signing_timestamp test_lib_def test_keys_def)
qed

text \<open>
  Claim C8. The RSA primitive is idealised: under the key pair at hand, verification
  accepts a signature for a payload exactly when it is the signature that signing
  produces for that payload and raises InvalidSignature otherwise, no two payloads share
  a signature, and base64 decoding inverts encoding. Then, for every dictionary of receipt
  fields that \<open>sign_receipt\<close> signs: \<open>verify_signature\<close> on the unmodified fields reports
  (True, "Signature verified successfully - Receipt is authentic"); with any single one
  of the ten signed fields changed it reports (False, "INVALID SIGNATURE - Receipt may
  have been tampered with"); a receipt that carries no signature is reported by
  \<open>verify_receipt_signature\<close> as (False, "Receipt was not digitally signed"); and the three
  messages differ.
\<close>

theorem signature_round_trip:
  assumes sound: "\<forall>p s. rsa_verify L pk s p =
                     (if rsa_sign L sk p = Some s then VerifyOk else InvalidSignature)"
      and inj: "\<forall>p p' s. rsa_sign L sk p = Some s \<and> rsa_sign L sk p' = Some s \<longrightarrow> p = p'"
      and b64: "\<forall>s. b64decode L (b64encode L s) = Inr s"
      and signed: "sign_receipt L ks st rd ts = ((Some sig, h, t), st')"
      and keys: "private_key st' = Some sk" "public_key st' = Some pk"
  shows "verify_signature L ks st' rd sig ts =
           ((True, ''Signature verified successfully - Receipt is authentic''), st')
       \<and> (\<forall>k v v'. k \<in> set signed_keys \<and> rd k = Some v \<and> v' \<noteq> v \<longrightarrow>
            verify_signature L ks st' (rd(k \<mapsto> v')) sig ts =
              ((False, ''INVALID SIGNATURE - Receipt may have been tampered with''), st'))
       \<and> (\<forall>d n r. get_receipt d n = Some r \<and> digital_signature r = None \<longrightarrow>
            verify_receipt_signature L ks st' d n =
              ((False, ''Receipt was not digitally signed'', Some r), d, st'))
       \<and> distinct [''Signature verified successfully - Receipt is authentic'',
                   ''INVALID SIGNATURE - Receipt may have been tampered with'',
                   ''Receipt was not digitally signed'']"
proof -
  from sign_receipt_Some [OF signed] keys(1)
  obtain s0 where init: "ensure_initialized ks st = (True, st')"
    and s0: "rsa_sign L sk (create_signing_payload rd) = Some s0"
    and sig: "sig = b64encode L s0"
    by auto
  have i: "initialized st'" using ensure_initialized_True [OF init] by simp
  have dec: "b64decode L sig = Inr s0" using sig b64 by simp
  have ok: "verify_signature L ks st' rd sig ts =
           ((True, ''Signature verified successfully - Receipt is authentic''), st')"
    using s0 by (simp add: verify_signature_initialized [OF i keys(2) dec] sound)
  have tamper: "verify_signature L ks st' (rd(k \<mapsto> v')) sig ts =
              ((False, ''INVALID SIGNATURE - Receipt may have been tampered with''), st')"
    if "k \<in> set signed_keys" "rd k = Some v" "v' \<noteq> v" for k v v'
  proof -
    have "create_signing_payload (rd(k \<mapsto> v')) \<noteq> create_signing_payload rd"
      using that by (rule payload_field_change)
    then have "rsa_sign L sk (create_signing_payload (rd(k \<mapsto> v'))) \<noteq> Some s0"
      using inj s0 by blast
    then show ?thesis
      by (simp add: verify_signature_initialized [OF i keys(2) dec] sound)
  qed
  have unsigned: "verify_receipt_signature L ks st' d n =
              ((False, ''Receipt was not digitally signed'', Some r), d, st')"
    if "get_receipt d n = Some r" "digital_signature r = None" for d n r
    using that by (simp add: verify_receipt_signature_def)
  show ?thesis using ok tamper unsigned by simp
qed

theorem signature_round_trip_witness:
  "fst (verify_signature test_lib NoKeys test_keys test_receipt_data
          (''k'' @ create_signing_payload test_receipt_data) ''TZ'')
     = (True, ''Signature verified successfully - Receipt is authentic'')
   \<and> fst (verify_signature test_lib NoKeys test_keys (test_receipt_data(''amount'' \<mapsto> ''50001''))
            (''k'' @ create_signing_payload test_receipt_data) ''TZ'')
     = (False, ''INVALID SIGNATURE - Receipt may have been tampered with'')
   \<and> fst (verify_receipt_signature test_lib NoKeys test_keys test_receipt_db ''RCP-1'')
     = (False, ''Receipt was not digitally signed'', Some test_receipt)"
proof -
  have k: "private_key test_keys = Some ''k''" "public_key test_keys = Some ''k''"
    by (simp_all add: test_keys_def)
  have a: "''amount'' \<in> set signed_keys" "test_receipt_data ''amount'' = Some ''50000''"
    "''50001'' \<noteq> ''50000''" "digital_signature test_receipt = None"
    by (simp_all add: signed_keys_def test_receipt_data_def test_receipt_def)
  note rt = signature_round_trip [OF test_lib_ideal test_sign k]
  have ok: "verify_signature test_lib NoKeys test_keys test_receipt_data
              (''k'' @ create_signing_payload test_receipt_data) ''TZ''
            = ((True, ''Signature verified successfully - Receipt is authentic''), test_keys)"
    using rt by simp
  have tampered: "verify_signature test_lib NoKeys test_keys
                    (test_receipt_data(''amount'' \<mapsto> ''50001''))
                    (''k'' @ create_signing_payload test_receipt_data) ''TZ''
            = ((False, ''INVALID SIGNATURE - Receipt may have been tampered with''), test_keys)"
    using rt [THEN conjunct2, THEN conjunct1, rule_format,
              of "''amount''" "''50000''" "''50001''"] a
    by simp
  have unsigned: "verify_receipt_signature test_lib NoKeys test_keys test_receipt_db ''RCP-1''
            = ((False, ''Receipt was not digitally signed'', Some test_receipt),
               test_receipt_db, test_keys)"
    using rt [THEN conjunct2, THEN conjunct2, THEN conjunct1, rule_format,
              of test_receipt_db "''RCP-1''" test_receipt] a get_receipt_test
    by simp
  show ?thesis using ok tampered unsigned by simp
qed

end
